theory Spec2Isabelle
  imports Main
begin

section \<open>JavaScript values used by the orchestrator\<close>

text \<open>
  The class \<open>DeepRouteCompileCommands\<close> of the extension is embedded as functions on an
  explicit \<open>state\<close> record that holds the fields of the class, the \<open>ChildProcess\<close>
  objects it has created and the timers it has armed. Every call that leaves the class
  (output channel, notifications, \<open>child_process\<close>, \<open>fs\<close>, the command registry) is an
  \<open>effect\<close>; the effects of a run are collected, in order, in the \<open>trace\<close> of the
  state. What the outside world answers to such a call is an input of the model.
  A thrown JavaScript exception is a value of type \<open>fault\<close>.
  Strings are lists of 8-bit code units; the pictographs that open some log messages are
  left out of the message texts.
\<close>

datatype fault = Thrown string

definition nl :: string where
  "nl = [CHR 0x0A]"

definition isWhiteSpace :: "char \<Rightarrow> bool" where
  "isWhiteSpace c = (c \<in> set [CHR 0x09, CHR 0x0A, CHR 0x0B, CHR 0x0C, CHR 0x0D, CHR 0x20, CHR 0xA0])"

text \<open>\<open>String.prototype.trim\<close>.\<close>

definition trim :: "string \<Rightarrow> string" where
  "trim s = rev (dropWhile isWhiteSpace (rev (dropWhile isWhiteSpace s)))"

text \<open>\<open>s.startsWith(t)\<close> and \<open>s.includes(t)\<close>.\<close>

definition startsWith :: "string \<Rightarrow> string \<Rightarrow> bool" where
  "startsWith s t = (take (length t) s = t)"

fun includes_str :: "string \<Rightarrow> string \<Rightarrow> bool" where
  "includes_str [] t = (t = [])"
| "includes_str (c # s) t = (startsWith (c # s) t \<or> includes_str s t)"

text \<open>\<open>s.split(sep)\<close> for a one-character separator.\<close>

fun split_on :: "char \<Rightarrow> string \<Rightarrow> string list" where
  "split_on sep [] = [[]]"
| "split_on sep (c # s) =
     (if c = sep then [] # split_on sep s
      else (case split_on sep s of
              [] \<Rightarrow> [[c]]
            | seg # segs \<Rightarrow> (c # seg) # segs))"

text \<open>\<open>xs.join(sep)\<close>.\<close>

fun join_with :: "string \<Rightarrow> string list \<Rightarrow> string" where
  "join_with sep [] = []"
| "join_with sep [x] = x"
| "join_with sep (x # y # ys) = x @ sep @ join_with sep (y # ys)"

text \<open>Template-literal rendering of integers.\<close>

fun string_of_nat :: "nat \<Rightarrow> string" where
  "string_of_nat n =
     (if n < 10 then [char_of (48 + n)]
      else string_of_nat (n div 10) @ [char_of (48 + n mod 10)])"

definition string_of_int :: "int \<Rightarrow> string" where
  "string_of_int i = (if i < 0 then CHR ''-'' # string_of_nat (nat (- i)) else string_of_nat (nat i))"

text \<open>
  \<open>(size / 1024 / 1024).toFixed(2)\<close>: both divisions are exact in binary floating point,
  so the result is the size in MiB rounded half up to two decimals.
\<close>

definition fileSizeMB :: "nat \<Rightarrow> string" where
  "fileSizeMB bytes =
     (let n = (bytes * 200 + 1048576) div 2097152
      in string_of_nat (n div 100) @ ''.'' @ [char_of (48 + (n mod 100) div 10), char_of (48 + n mod 10)])"

section \<open>Paths (\<open>path.posix\<close>)\<close>

text \<open>
  \<open>normalizeString\<close> of the runtime's path module, on the segments between slashes:
  empty and \<open>.\<close> segments vanish, \<open>..\<close> removes the segment before it; above the root
  it is dropped (absolute path) or kept (relative path). The accumulator is reversed.
\<close>

fun normalizeSegments :: "bool \<Rightarrow> string list \<Rightarrow> string list \<Rightarrow> string list" where
  "normalizeSegments allowAboveRoot acc [] = rev acc"
| "normalizeSegments allowAboveRoot acc (seg # segs) =
     (if seg = [] \<or> seg = ''.'' then normalizeSegments allowAboveRoot acc segs
      else if seg = ''..'' then
        (case acc of
           [] \<Rightarrow> normalizeSegments allowAboveRoot (if allowAboveRoot then [''..''] else []) segs
         | lastSeg # below \<Rightarrow>
             if lastSeg = ''..'' then normalizeSegments allowAboveRoot (''..'' # acc) segs
             else normalizeSegments allowAboveRoot below segs)
      else normalizeSegments allowAboveRoot (seg # acc) segs)"

definition normalizeString :: "string \<Rightarrow> bool \<Rightarrow> string" where
  "normalizeString p allowAboveRoot =
     join_with ''/'' (normalizeSegments allowAboveRoot [] (split_on CHR ''/'' p))"

definition path_normalize :: "string \<Rightarrow> string" where
  "path_normalize p =
     (if p = [] then ''.''
      else
        (let isAbsolute = (hd p = CHR ''/'');
             trailingSeparator = (last p = CHR ''/'');
             q = normalizeString p (\<not> isAbsolute)
         in if q = [] then (if isAbsolute then ''/'' else if trailingSeparator then ''./'' else ''.'')
            else (if isAbsolute then ''/'' else '''') @ q @ (if trailingSeparator then ''/'' else '''')))"

definition path_join :: "string list \<Rightarrow> string" where
  "path_join parts =
     (case filter (\<lambda>a. a \<noteq> []) parts of
        [] \<Rightarrow> ''.''
      | joined \<Rightarrow> path_normalize (join_with ''/'' joined))"

text \<open>
  \<open>path.resolve(a, b)\<close>, from the right until an absolute prefix is found;
  \<open>processCwd\<close> is \<open>process.cwd()\<close>, used when neither argument is absolute.
\<close>

fun resolveParts :: "string list \<Rightarrow> string \<Rightarrow> string" where
  "resolveParts [] resolvedPath = resolvedPath"
| "resolveParts (p # ps) resolvedPath =
     (if p = [] then resolveParts ps resolvedPath
      else if hd p = CHR ''/'' then p @ ''/'' @ resolvedPath
      else resolveParts ps (p @ ''/'' @ resolvedPath))"

definition path_resolve :: "string \<Rightarrow> string \<Rightarrow> string \<Rightarrow> string" where
  "path_resolve processCwd a b =
     (let resolvedPath = resolveParts [b, a, processCwd] [];
          resolvedAbsolute = (resolvedPath \<noteq> [] \<and> hd resolvedPath = CHR ''/'');
          q = normalizeString resolvedPath (\<not> resolvedAbsolute)
      in if resolvedAbsolute then ''/'' @ q
         else if q \<noteq> [] then q else ''.'')"

text \<open>\<open>cwd.trim().replace(/^\.?\//, '')\<close>: one leading \<open>./\<close> or \<open>/\<close> is removed.\<close>

definition cleanCwdOf :: "string \<Rightarrow> string" where
  "cleanCwdOf s =
     (let t = trim s
      in if startsWith t ''./'' then drop 2 t
         else if startsWith t ''/'' then drop 1 t
         else t)"

text \<open>The truth value of \<open>cwd && cwd.trim()\<close> for \<open>cwd?: string\<close>.\<close>

definition cwdGiven :: "string option \<Rightarrow> bool" where
  "cwdGiven cwd = (case cwd of None \<Rightarrow> False | Some c \<Rightarrow> c \<noteq> [] \<and> trim c \<noteq> [])"

section \<open>The outside world\<close>

text \<open>
  The object returned by \<open>child_process.spawnSync\<close>. When the child could not be
  spawned, \<open>error\<close> is set and \<open>stdout\<close>, \<open>stderr\<close> and \<open>status\<close> are \<open>null\<close>.
\<close>

record spawn_sync_returns =
  error :: "string option"
  status :: "int option"
  stdout :: "string option"
  stderr :: "string option"

record fs_stats =
  st_mtime :: int
  st_size :: nat

text \<open>What \<open>fs.existsSync\<close> and \<open>fs.statSync\<close> answer for one path at one moment.\<close>

record fs_answer =
  existsSync :: bool
  statSync :: "fault + fs_stats"

text \<open>The return type \<open>{ exists: boolean; mtime?: Date }\<close>, the date as its \<open>getTime()\<close>.\<close>

record file_stats =
  exists :: bool
  mtime :: "int option"

datatype signal = SIGTERM | SIGKILL

record spawn_options =
  opt_cwd :: string
  opt_env :: "(string \<times> string) list"
  opt_shell :: "string option"

datatype effect =
    OutShow
  | OutAppendLine string
  | OutAppend string
  | ShowWarningPrompt string "string list"
  | ShowErrorPrompt string "string list"
  | ShowWarningMessage string
  | ShowErrorMessage string
  | ShowInformationMessage string
  | WithProgress string
  | SpawnSync string "string list" spawn_sync_returns
  | ExecSync string "fault + string"
  | ExistsSync string bool
  | StatSync string "fault + fs_stats"
  | Spawn nat string "string list" spawn_options
  | Kill nat signal bool
  | SetTimeout nat
  | GetCommands
  | ExecuteCommand string
  | Resolve nat
  | Rejected fault

text \<open>
  \<open>vscode.workspace.getConfiguration('deeproute-compile-commands')\<close>: a setting that is
  not set is \<open>None\<close>, and \<open>config.get(key, default)\<close> then gives the default.
\<close>

datatype command_entry =
    Bare string
  | Entry (entry_command: string) (entry_cwd: "string option") (entry_alias: "string option")
          (entry_executeLocally: "bool option")

record configuration =
  cfg_executeLocally :: "bool option"
  cfg_dockerContainerName :: "string option"
  cfg_shell :: "string option"
  cfg_env :: "(string \<times> string) list option"
  cfg_predefinedCommands :: "command_entry list option"

definition config_get :: "'a option \<Rightarrow> 'a \<Rightarrow> 'a" where
  "config_get setting dflt = (case setting of None \<Rightarrow> dflt | Some v \<Rightarrow> v)"

text \<open>The answers of the outside world during one call of \<open>execute\<close>.\<close>

record world =
  answer :: "string option"
  timeString :: string
  processCwd :: string
  processEnv :: "(string \<times> string) list"
  inspectResult :: spawn_sync_returns
  listResult :: spawn_sync_returns
  startResult :: spawn_sync_returns
  verifyResult :: spawn_sync_returns
  cwdExists :: bool
  beforeFs :: fs_answer
  idU :: "fault + string"
  idG :: "fault + string"

text \<open>The answers of the outside world while one \<open>close\<close> handler runs.\<close>

record close_world =
  afterFs :: fs_answer
  rewriteFs :: fs_answer
  grepQuiet :: spawn_sync_returns
  grepCount :: spawn_sync_returns
  sedResult :: "fault + string"
  durationText :: string
  getCommands :: "fault + string list"
  restartResult :: "fault option"

section \<open>The state of the class\<close>

text \<open>
  A \<open>ChildProcess\<close> object: \<open>handle_open\<close> holds until the operating-system process has
  exited, \<open>killed\<close> is the property of that name (a signal was delivered by \<open>kill\<close>),
  \<open>closed\<close> says that its \<open>close\<close> event has been emitted, \<open>resolved\<close> that the
  promise of its progress notification is resolved; the last two fields are the
  variables captured by its \<open>close\<close> handler.
\<close>

record child_process =
  handle_open :: bool
  killed :: bool
  closed :: bool
  resolved :: bool
  capturedPath :: string
  capturedBeforeStats :: file_stats

text \<open>
  \<open>children\<close> holds every \<open>ChildProcess\<close> created so far, a process being named by its
  index. \<open>timers\<close> are the pending callbacks of \<open>setTimeout\<close> in arming order; the
  number kept with each is the process that the arming \<open>stop()\<close> was stopping, which
  the callback itself does not capture.
\<close>

record state =
  currentProcess :: "nat option"
  workspaceRoot :: string
  workspaceRootValid :: bool
  children :: "child_process list"
  timers :: "nat list"
  trace :: "effect list"

definition emit :: "effect \<Rightarrow> state \<Rightarrow> state" where
  "emit e s = s\<lparr>trace := trace s @ [e]\<rparr>"

definition emits :: "effect list \<Rightarrow> state \<Rightarrow> state" where
  "emits es s = s\<lparr>trace := trace s @ es\<rparr>"

text \<open>How a block of statements ends: it falls through, returns a value, or throws.\<close>

datatype 'r completion = Normal | Return 'r | Throw fault

definition sq :: string where
  "sq = [CHR 0x27]"

definition rule40 :: string where
  "rule40 = replicate 40 CHR ''=''"

definition dash40 :: string where
  "dash40 = replicate 40 CHR ''-''"

definition nullToString :: fault where
  "nullToString = Thrown ''TypeError: Cannot read properties of null (reading toString)''"

section \<open>The class \<open>DeepRouteCompileCommands\<close>\<close>

subsection \<open>Construction\<close>

definition checkWorkspaceRoot :: "string \<Rightarrow> state \<Rightarrow> bool \<times> state" where
  "checkWorkspaceRoot homeDir s =
     (let expectedRoot = path_join [homeDir, ''codetree'', ''repo'']
      in if workspaceRoot s \<noteq> expectedRoot
         then (False, emit (ShowErrorMessage
                 (''Workspace root must be $HOME/codetree/repo'' @ nl @ ''Expected: '' @ expectedRoot
                  @ nl @ ''Actual: '' @ workspaceRoot s)) s)
         else (True, s))"

definition constructor :: "string \<Rightarrow> string \<Rightarrow> state" where
  "constructor homeDir root =
     (let s = \<lparr>currentProcess = None, workspaceRoot = root, workspaceRootValid = False,
                children = [], timers = [], trace = []\<rparr>;
          checked = checkWorkspaceRoot homeDir s
      in (snd checked)\<lparr>workspaceRootValid := fst checked\<rparr>)"

subsection \<open>Stopping\<close>

text \<open>
  \<open>subprocess.kill(signal)\<close>: the signal is delivered, and \<open>killed\<close> set, while the
  process has not exited; afterwards the call does nothing and returns \<open>false\<close>.
\<close>

definition kill :: "nat \<Rightarrow> signal \<Rightarrow> state \<Rightarrow> state" where
  "kill p sig s =
     (if p < length (children s) \<and> handle_open (children s ! p)
      then emit (Kill p sig True) (s\<lparr>children := (children s)[p := (children s ! p)\<lparr>killed := True\<rparr>]\<rparr>)
      else emit (Kill p sig False) s)"

definition stop :: "state \<Rightarrow> state" where
  "stop s =
     (case currentProcess s of
        Some p \<Rightarrow>
          (let s1 = emit (OutAppendLine (nl @ ''[Stop] Terminating command execution...'')) s;
               s2 = kill p SIGTERM s1;
               s3 = emit (SetTimeout 3000) (s2\<lparr>timers := timers s2 @ [p]\<rparr>);
               s4 = s3\<lparr>currentProcess := None\<rparr>
           in emit (ShowInformationMessage ''Command execution stopped'') s4)
      | None \<Rightarrow> emit (ShowInformationMessage ''No command is currently running'') s)"

text \<open>The callback given to \<open>setTimeout\<close> in \<open>stop\<close>; it reads the field when it runs.\<close>

definition stopTimeout :: "state \<Rightarrow> state" where
  "stopTimeout s =
     (case currentProcess s of
        Some p \<Rightarrow>
          if p < length (children s) \<and> \<not> killed (children s ! p) then kill p SIGKILL s else s
      | None \<Rightarrow> s)"

definition isRunning :: "state \<Rightarrow> bool" where
  "isRunning s = (currentProcess s \<noteq> None)"

definition dispose :: "state \<Rightarrow> state" where
  "dispose s =
     (case currentProcess s of
        Some p \<Rightarrow> (kill p SIGKILL s)\<lparr>currentProcess := None\<rparr>
      | None \<Rightarrow> s)"

subsection \<open>The artifact change detector\<close>

text \<open>
  A method that assigns no field of the class is a function from its arguments and the
  answers of the outside world to its result and the effects it has, in order.
  First the body of the \<open>try\<close> block of \<open>getFileStats\<close>, then the function with its
  \<open>catch\<close>.
\<close>

definition getFileStats_try :: "string \<Rightarrow> fs_answer \<Rightarrow> file_stats completion \<times> effect list" where
  "getFileStats_try filePath fs =
     (if existsSync fs then
        (case statSync fs of
           Inl e \<Rightarrow> (Throw e, [ExistsSync filePath True, StatSync filePath (statSync fs)])
         | Inr stats \<Rightarrow>
             (Return \<lparr>exists = True, mtime = Some (st_mtime stats)\<rparr>,
              [ExistsSync filePath True, StatSync filePath (statSync fs)]))
      else (Normal, [ExistsSync filePath False]))"

definition getFileStats :: "string \<Rightarrow> fs_answer \<Rightarrow> file_stats \<times> effect list" where
  "getFileStats filePath fs =
     (case getFileStats_try filePath fs of
        (Return r, es) \<Rightarrow> (r, es)
      | (Throw e, es) \<Rightarrow> (\<lparr>exists = False, mtime = None\<rparr>, es)
      | (Normal, es) \<Rightarrow> (\<lparr>exists = False, mtime = None\<rparr>, es))"

definition isCompileCommandsUpdated :: "file_stats \<Rightarrow> file_stats \<Rightarrow> bool" where
  "isCompileCommandsUpdated before after =
     (if \<not> exists before \<and> exists after then True
      else if exists before \<and> exists after \<and> mtime before \<noteq> None \<and> mtime after \<noteq> None
           then the (mtime after) > the (mtime before)
      else False)"

subsection \<open>Spawning\<close>

text \<open>
  \<open>this.currentProcess = child_process.spawn(file, args, options)\<close> together with the
  registration of the handlers; \<open>path\<close> and \<open>before\<close> are the variables
  \<open>compileCommandsPath\<close> and \<open>beforeStats\<close> that the \<open>close\<close> handler captures.
\<close>

definition spawn :: "string \<Rightarrow> string list \<Rightarrow> spawn_options \<Rightarrow> string \<Rightarrow> file_stats \<Rightarrow> state \<Rightarrow> state" where
  "spawn file args options path before s =
     (let pid = length (children s)
      in emit (Spawn pid file args options)
           (s\<lparr>children := children s @
                  [\<lparr>handle_open = True, killed = False, closed = False, resolved = False,
                    capturedPath = path, capturedBeforeStats = before\<rparr>],
               currentProcess := Some pid\<rparr>))"

text \<open>
  The statements that open both \<open>executeInDocker\<close> and \<open>executeLocally\<close>
  (``Stop current process if any''); \<open>answer w\<close> is the button the user chooses.
\<close>

definition stopCurrentIfAny :: "world \<Rightarrow> state \<Rightarrow> unit completion \<times> state" where
  "stopCurrentIfAny w s =
     (if currentProcess s \<noteq> None then
        (let s1 = emit (ShowWarningPrompt ''A command is currently running. Stop it?''
                          [''Stop and Execute New Command'', ''Cancel'']) s;
             shouldStop = answer w
         in if shouldStop \<noteq> Some ''Stop and Execute New Command'' then (Return (), s1)
            else (Normal, stop s1))
      else (Normal, s))"

subsection \<open>Container mode\<close>

definition inspectArgs :: "string \<Rightarrow> string list" where
  "inspectArgs containerName = [''inspect'', ''--format'', ''{{.State.Running}}'', containerName]"

text \<open>
  The pre-check of \<open>executeInDocker\<close>, in three parts. Each is \<open>Normal\<close> when the
  function goes on, \<open>Return\<close> when it returns and \<open>Throw\<close> when it throws.
  First the branch ``Container does not exist'', entered with the trimmed \<open>stderr\<close> of
  the \<open>inspect\<close> call.
\<close>

definition containerMissing :: "world \<Rightarrow> string \<Rightarrow> unit completion \<times> effect list" where
  "containerMissing w containerName =
     (let lr = listResult w;
          es = [OutAppendLine (''Container '' @ sq @ containerName @ sq @ '' does not exist''),
                OutAppendLine (nl @ ''Available containers:''),
                SpawnSync ''docker'' [''ps'', ''-a'', ''--format'', ''{{.Names}}''] lr]
      in case stdout lr of
           None \<Rightarrow> (Throw nullToString, es)
         | Some out \<Rightarrow>
            (let availableContainers = trim out
             in (Return (), es @
                   [OutAppendLine (if availableContainers \<noteq> [] then availableContainers
                                   else ''   (No containers found)''),
                    ShowErrorMessage (''Docker container '' @ sq @ containerName @ sq
                      @ '' does not exist. Please check container name in settings.'')])))"

text \<open>The branch \<open>if (!isRunning)\<close>: start the container and inspect it again.\<close>

definition startContainer :: "world \<Rightarrow> string \<Rightarrow> unit completion \<times> effect list" where
  "startContainer w containerName =
     (let sr = startResult w;
          es = [OutAppendLine (''Container '' @ sq @ containerName @ sq @ '' is stopped''),
                OutAppendLine ''Starting container...'',
                SpawnSync ''docker'' [''start'', containerName] sr]
      in if error sr \<noteq> None \<or> status sr \<noteq> Some 0 then
           (let errorMsg =
                  (if stderr sr \<noteq> None \<and> trim (the (stderr sr)) \<noteq> [] then trim (the (stderr sr))
                   else if error sr \<noteq> None \<and> the (error sr) \<noteq> [] then the (error sr)
                   else ''Unknown error'')
            in (Return (), es @
                  [OutAppendLine (''Failed to start container: '' @ errorMsg),
                   OutAppendLine (nl @ ''Possible reasons:''),
                   OutAppendLine ''   - Container configuration error'',
                   OutAppendLine ''   - Required resources not available'',
                   OutAppendLine (''   - Check logs: docker logs '' @ containerName),
                   ShowErrorMessage (''Docker container failed to start: '' @ errorMsg)]))
         else
           (let vr = verifyResult w;
                es2 = es @ [SpawnSync ''docker'' (inspectArgs containerName) vr]
            in if status vr = Some 0 \<and> stdout vr = None then (Throw nullToString, es2)
               else
                 (let nowRunning = (status vr = Some 0 \<and> trim (the (stdout vr)) = ''true'')
                  in if \<not> nowRunning then
                       (Return (), es2 @
                          [OutAppendLine ''Container started but not running (may have crashed)'',
                           OutAppendLine (''Check container logs: docker logs '' @ containerName),
                           ShowErrorMessage ''Container started but immediately stopped. Check Docker logs.''])
                     else (Normal, es2 @ [OutAppendLine (''Container started and verified running'' @ nl)]))))"

text \<open>``Pre-check: Verify container status'' as a whole.\<close>

definition verifyContainer :: "world \<Rightarrow> string \<Rightarrow> unit completion \<times> effect list" where
  "verifyContainer w containerName =
     (let ir = inspectResult w;
          es = [SpawnSync ''docker'' (inspectArgs containerName) ir]
      in case error ir of
           Some err \<Rightarrow>
             (Return (), es @
                [OutAppendLine (''Docker is not accessible: '' @ err),
                 OutAppendLine ''Please ensure Docker Desktop/Engine is running.'',
                 ShowErrorMessage ''Docker is not running. Please start Docker Desktop/Engine and try again.''])
         | None \<Rightarrow>
             if status ir \<noteq> Some 0 then
               (case stderr ir of
                  None \<Rightarrow> (Throw nullToString, es)
                | Some errText \<Rightarrow>
                   (let errorMsg = trim errText
                    in if includes_str errorMsg ''No such object'' \<or> includes_str errorMsg ''Error: No such container''
                       then (fst (containerMissing w containerName), es @ snd (containerMissing w containerName))
                       else
                         (Return (), es @
                            [OutAppendLine (''Docker error: '' @ errorMsg),
                             ShowErrorMessage (''Docker error: '' @ errorMsg)])))
             else
               (case stdout ir of
                  None \<Rightarrow> (Throw nullToString, es)
                | Some out \<Rightarrow>
                   (let isRunning = (trim out = ''true'')
                    in if \<not> isRunning
                       then (fst (startContainer w containerName), es @ snd (startContainer w containerName))
                       else (Normal, es))))"

text \<open>
  ``Determine host working directory'' to ``Step 2: Build docker exec command'': the path
  of the artifact, its snapshot before the run and the arguments of \<open>docker exec\<close>. The
  two \<open>execSync\<close> calls throw when \<open>id\<close> cannot be run. \<open>root\<close> is
  \<open>this.workspaceRoot\<close>.
\<close>

definition buildDockerExec :: "world \<Rightarrow> string \<Rightarrow> string \<Rightarrow> string \<Rightarrow> string option \<Rightarrow> string \<Rightarrow> (fault + string \<times> file_stats \<times> string list) \<times> effect list" where
  "buildDockerExec w root containerName command cwd containerWorkDir =
     (let hostWorkDir = (if cwdGiven cwd
                         then path_resolve (processCwd w) root (cleanCwdOf (the cwd))
                         else root);
          compileCommandsPath = path_join [hostWorkDir, ''compile_commands.json''];
          snap = getFileStats compileCommandsPath (beforeFs w);
          beforeStats = fst snap;
          es = snd snap @ [ExecSync ''id -u'' (idU w)]
      in case idU w of
           Inl e \<Rightarrow> (Inl e, es)
         | Inr uidOut \<Rightarrow>
            (let uid = trim uidOut;
                 es2 = es @ [ExecSync ''id -g'' (idG w)]
             in case idG w of
                  Inl e \<Rightarrow> (Inl e, es2)
                | Inr gidOut \<Rightarrow>
                   (let gid = trim gidOut;
                        dockerArgs = [''exec'', ''-i'', ''-w'', ''/sandbox'', ''-u'', uid @ '':'' @ gid,
                                      containerName, ''bash'', ''-c'',
                                      ''cd '' @ containerWorkDir @ '' && '' @ command]
                    in (Inr (compileCommandsPath, beforeStats, dockerArgs), es2))))"

text \<open>
  ``Determine working directory in container'': the container root is \<open>/sandbox\<close>, and
  \<open>cwd\<close> is appended when it is given.
\<close>

definition containerWorkDirOf :: "string option \<Rightarrow> string" where
  "containerWorkDirOf cwd =
     (if cwdGiven cwd then ''/sandbox/'' @ cleanCwdOf (the cwd) else ''/sandbox'')"

text \<open>The lines written under ``Show output''; \<open>now\<close> is \<open>new Date().toLocaleString()\<close>.\<close>

definition dockerBanner :: "string \<Rightarrow> string \<Rightarrow> string \<Rightarrow> string \<Rightarrow> effect list" where
  "dockerBanner command containerName containerWorkDir now =
     [OutShow,
      OutAppendLine (nl @ rule40),
      OutAppendLine (''Executing: '' @ command),
      OutAppendLine ''Docker Mode: Yes'',
      OutAppendLine (''Container: '' @ containerName),
      OutAppendLine (''Working Dir: '' @ containerWorkDir),
      OutAppendLine (''Time: '' @ now),
      OutAppendLine (rule40 @ nl)]"

text \<open>\<open>executeInDocker\<close> after its opening statements, then the function as a whole.\<close>

definition runInDocker :: "world \<Rightarrow> string \<Rightarrow> string \<Rightarrow> string option \<Rightarrow> state \<Rightarrow> unit completion \<times> state" where
  "runInDocker w containerName command cwd s1 =
     (let containerWorkDir = containerWorkDirOf cwd;
          s2 = emits (dockerBanner command containerName containerWorkDir (timeString w)) s1;
          checked = verifyContainer w containerName;
          s3 = emits (snd checked) s2
      in case fst checked of
           Return u \<Rightarrow> (Return (), s3)
         | Throw e \<Rightarrow> (Throw e, s3)
         | Normal \<Rightarrow>
            (let built = buildDockerExec w (workspaceRoot s1) containerName command cwd containerWorkDir;
                 s4 = emits (snd built) s3
             in case fst built of
                  Inl e \<Rightarrow> (Throw e, s4)
                | Inr (compileCommandsPath, beforeStats, dockerArgs) \<Rightarrow>
                    (Normal, spawn ''docker'' dockerArgs
                               \<lparr>opt_cwd = workspaceRoot s1, opt_env = processEnv w, opt_shell = None\<rparr>
                               compileCommandsPath beforeStats
                               (emit (WithProgress (''Executing in container: '' @ command)) s4))))"

definition executeInDocker :: "world \<Rightarrow> string \<Rightarrow> string \<Rightarrow> string option \<Rightarrow> state \<Rightarrow> unit completion \<times> state" where
  "executeInDocker w containerName command cwd s =
     (case stopCurrentIfAny w s of
        (Return u, s1) \<Rightarrow> (Return (), s1)
      | (Throw e, s1) \<Rightarrow> (Throw e, s1)
      | (Normal, s1) \<Rightarrow> runInDocker w containerName command cwd s1)"

subsection \<open>Local mode\<close>

text \<open>
  ``Determine actual working directory (host mode)'': the workspace root, or \<open>cwd\<close>
  resolved against it when \<open>cwd\<close> is given.
\<close>

definition actualCwdOf :: "string \<Rightarrow> string \<Rightarrow> string option \<Rightarrow> string" where
  "actualCwdOf here root cwd =
     (if cwdGiven cwd then path_resolve here root (trim (the cwd)) else root)"

text \<open>The lines written under ``Show output panel''.\<close>

definition localBanner :: "string \<Rightarrow> string \<Rightarrow> string \<Rightarrow> effect list" where
  "localBanner command actualCwd now =
     [OutShow,
      OutAppendLine (nl @ rule40),
      OutAppendLine (''Executing: '' @ command),
      OutAppendLine ''Execution Mode: Local'',
      OutAppendLine (''Working Dir: '' @ actualCwd),
      OutAppendLine (''Time: '' @ now),
      OutAppendLine (rule40 @ nl)]"

text \<open>\<open>executeLocally\<close> after its opening statements, then the function as a whole.\<close>

definition runLocally :: "configuration \<Rightarrow> world \<Rightarrow> string \<Rightarrow> string option \<Rightarrow> state \<Rightarrow> unit completion \<times> state" where
  "runLocally config w command cwd s1 =
     (let actualCwd = actualCwdOf (processCwd w) (workspaceRoot s1) cwd;
          s2 = (if cwdGiven cwd then emit (ExistsSync actualCwd (cwdExists w)) s1 else s1)
      in if cwdGiven cwd \<and> \<not> cwdExists w then
           (Return (), emit (ShowErrorMessage (''Specified directory does not exist: '' @ actualCwd)) s2)
         else
           (let compileCommandsPath = path_join [actualCwd, ''compile_commands.json''];
                snap = getFileStats compileCommandsPath (beforeFs w);
                beforeStats = fst snap;
                customShell = config_get (cfg_shell config) [];
                customEnv = config_get (cfg_env config) [];
                env = customEnv @ processEnv w;
                s3 = emits (localBanner command actualCwd (timeString w)) (emits (snd snap) s2);
                spawnOptions = \<lparr>opt_cwd = actualCwd, opt_env = env,
                                opt_shell = (if customShell \<noteq> [] then Some customShell else None)\<rparr>;
                s4 = emit (WithProgress (''Executing: '' @ command)) s3
            in (Normal, spawn command [] spawnOptions compileCommandsPath beforeStats s4)))"

definition executeLocally :: "configuration \<Rightarrow> world \<Rightarrow> string \<Rightarrow> string option \<Rightarrow> state \<Rightarrow> unit completion \<times> state" where
  "executeLocally config w command cwd s =
     (case stopCurrentIfAny w s of
        (Return u, s1) \<Rightarrow> (Return (), s1)
      | (Throw e, s1) \<Rightarrow> (Throw e, s1)
      | (Normal, s1) \<Rightarrow> runLocally config w command cwd s1)"

subsection \<open>The path rewriter and the refresh\<close>

definition dq :: string where
  "dq = [CHR 0x22]"

fun message :: "fault \<Rightarrow> string" where
  "message (Thrown m) = m"

definition sedCommandOf :: "string \<Rightarrow> string \<Rightarrow> string" where
  "sedCommandOf root filePath =
     ''sed -i '' @ sq @ ''s|/sandbox|'' @ root @ ''|g'' @ sq @ '' '' @ dq @ filePath @ dq"

text \<open>
  \<open>replaceCompileCommandsPath\<close>, from the inside: the statements from ``Count /sandbox
  occurrences before replacement'' on, with the inner \<open>try\<close> and \<open>catch\<close> around
  \<open>sed\<close>; then the body of the outer \<open>try\<close> block; then the function with the outer
  \<open>catch\<close>. \<open>root\<close> is \<open>this.workspaceRoot\<close>.
\<close>

definition substitute :: "string \<Rightarrow> string \<Rightarrow> close_world \<Rightarrow> bool completion \<times> effect list" where
  "substitute root filePath cw =
     (let countBeforeResult = grepCount cw;
          es = [SpawnSync ''grep'' [''-o'', ''/sandbox'', filePath] countBeforeResult]
      in case stdout countBeforeResult of
           None \<Rightarrow> (Throw nullToString, es)
         | Some out \<Rightarrow>
            (let countBefore = length (filter (\<lambda>line. trim line \<noteq> []) (split_on CHR 0x0A out));
                 sedCommand = sedCommandOf root filePath;
                 es2 = es @ [ExecSync sedCommand (sedResult cw)]
             in case sedResult cw of
                  Inr done \<Rightarrow>
                    (Return True, es2 @
                       [OutAppendLine
                          (''[Clangd] Path replacement completed ('' @ durationText cw @ ''s, ''
                           @ string_of_nat countBefore @ '' occurrences): /sandbox -> '' @ root)])
                | Inl sedError \<Rightarrow>
                    (Return False, es2 @
                       [OutAppendLine (''[Clangd] sed command failed: '' @ message sedError),
                        OutAppendLine (''[Clangd] Hint: Run manually: sed -i '' @ sq
                          @ ''s|/sandbox|'' @ root @ ''|g'' @ sq @ '' '' @ filePath)])))"

definition replaceCompileCommandsPath_try :: "string \<Rightarrow> string \<Rightarrow> close_world \<Rightarrow> bool completion \<times> effect list" where
  "replaceCompileCommandsPath_try root filePath cw =
     (let es = [OutAppendLine ''[Clangd] Updating real paths in compile_commands.json...'',
                ExistsSync filePath (existsSync (rewriteFs cw))]
      in if \<not> existsSync (rewriteFs cw) then
           (Return False, es @ [OutAppendLine (''[Clangd] File does not exist: '' @ filePath)])
         else
           (let es2 = es @ [StatSync filePath (statSync (rewriteFs cw))]
            in case statSync (rewriteFs cw) of
                 Inl e \<Rightarrow> (Throw e, es2)
               | Inr stats \<Rightarrow>
                  (let grepResult = grepQuiet cw;
                       es3 = es2 @
                         [OutAppendLine (''[Clangd] File size: '' @ fileSizeMB (st_size stats) @ '' MB''),
                          SpawnSync ''grep'' [''-q'', ''/sandbox'', filePath] grepResult]
                   in if status grepResult \<noteq> Some 0 then
                        (Return False, es3 @
                           [OutAppendLine ''[Clangd] No /sandbox path found in file, no replacement needed''])
                      else
                        (fst (substitute root filePath cw),
                         es3 @ [OutAppendLine ''[Clangd] Using sed command for path replacement...'']
                             @ snd (substitute root filePath cw)))))"

definition replaceCompileCommandsPath :: "string \<Rightarrow> string \<Rightarrow> close_world \<Rightarrow> bool \<times> effect list" where
  "replaceCompileCommandsPath root filePath cw =
     (case replaceCompileCommandsPath_try root filePath cw of
        (Return b, es) \<Rightarrow> (b, es)
      | (Throw e, es) \<Rightarrow>
          (False, es @ [OutAppendLine (''[Clangd] Path replacement failed: '' @ message e)])
      | (Normal, es) \<Rightarrow> (False, es))"

text \<open>
  \<open>restartClangd\<close>: the statements of its \<open>try\<close> block after the path replacement,
  then the whole body of the block, the report of its \<open>catch\<close> block, and the function.
\<close>

definition restartCommand :: "close_world \<Rightarrow> unit completion \<times> effect list" where
  "restartCommand cw =
     (case getCommands cw of
        Inl e \<Rightarrow> (Throw e, [GetCommands])
      | Inr allCommands \<Rightarrow>
         (let clangdCommands = filter (\<lambda>cmd. startsWith cmd ''clangd'') allCommands
          in if length clangdCommands = 0 then
               (Return (),
                  [GetCommands,
                   OutAppendLine ''[Clangd] clangd extension not detected, cannot auto-restart language server'',
                   OutAppendLine (''[Clangd] Hint: Please manually execute '' @ dq
                     @ ''clangd: Restart language server'' @ dq @ '' command''),
                   ShowWarningMessage ''clangd extension not detected. Please restart clangd manually or install the clangd extension''])
             else
               (let es = [GetCommands,
                          OutAppendLine ''[Clangd] Executing VS Code/Cursor command: clangd: Restart language server, please wait...'',
                          ExecuteCommand ''clangd.restart'']
                in case restartResult cw of
                     Some e \<Rightarrow> (Throw e, es)
                   | None \<Rightarrow>
                       (Normal, es @
                          [OutAppendLine ''[Clangd] clangd.restart command sent successfully'',
                           OutAppendLine ''[Clangd] clangd is reloading compile_commands.json and indexing C++ symbols in background...'',
                           OutAppendLine ''[Clangd] Hint: Indexing may take seconds to minutes, check VS Code/Cursor status bar (bottom right)'',
                           ShowInformationMessage ''compile_commands.json updated, clangd is re-indexing (check status bar)'']))))"

definition restartClangd_try :: "string \<Rightarrow> string \<Rightarrow> close_world \<Rightarrow> unit completion \<times> effect list" where
  "restartClangd_try root compileCommandsPath cw =
     (let rewritten = replaceCompileCommandsPath root compileCommandsPath cw;
          replaced = fst rewritten
      in (fst (restartCommand cw),
          [OutAppendLine ''[Clangd] Preparing to reload compile_commands.json and index C++ symbols...'']
          @ snd rewritten @ snd (restartCommand cw)))"

definition restartFailureReport :: "fault \<Rightarrow> effect list" where
  "restartFailureReport e =
     [OutAppendLine (''[Clangd] Failed to restart language server: ''
        @ (if message e \<noteq> [] then message e else ''Command execution failed'')),
      OutAppendLine (''[Clangd] Hint: Please manually execute '' @ dq
        @ ''clangd: Restart language server'' @ dq @ '' command''),
      ShowErrorMessage (''clangd restart failed: ''
        @ (if message e \<noteq> [] then message e else ''Unknown error''))]"

definition restartClangd :: "string \<Rightarrow> string \<Rightarrow> close_world \<Rightarrow> effect list" where
  "restartClangd root compileCommandsPath cw =
     (case restartClangd_try root compileCommandsPath cw of
        (Throw e, es) \<Rightarrow> es @ restartFailureReport e
      | (Return u, es) \<Rightarrow> es
      | (Normal, es) \<Rightarrow> es)"

subsection \<open>The handlers of a spawned process\<close>

text \<open>\<open>resolve()\<close> of the promise given to \<open>withProgress\<close> for process \<open>p\<close>.\<close>

definition resolve :: "nat \<Rightarrow> state \<Rightarrow> state" where
  "resolve p s =
     emit (Resolve p)
       (if p < length (children s)
        then s\<lparr>children := (children s)[p := (children s ! p)\<lparr>resolved := True\<rparr>]\<rparr>
        else s)"

definition onCancellationRequested :: "nat \<Rightarrow> state \<Rightarrow> state" where
  "onCancellationRequested p s = resolve p (stop s)"

definition onError :: "nat \<Rightarrow> string \<Rightarrow> state \<Rightarrow> state" where
  "onError p msg s =
     (let s1 = emits
            [OutAppendLine (nl @ ''[Error] '' @ msg),
             ShowErrorMessage (''Command execution failed: '' @ msg)] s
      in resolve p (s1\<lparr>currentProcess := None\<rparr>))"

text \<open>The truth value of \<open>signal\<close> and the rendering of \<open>code\<close> in a template literal.\<close>

definition signalGiven :: "string option \<Rightarrow> bool" where
  "signalGiven sig = (case sig of None \<Rightarrow> False | Some name \<Rightarrow> name \<noteq> [])"

definition codeText :: "int option \<Rightarrow> string" where
  "codeText code = (case code of None \<Rightarrow> ''null'' | Some c \<Rightarrow> string_of_int c)"

text \<open>
  The \<open>close\<close> handler of process \<open>p\<close>, with the \<open>compileCommandsPath\<close> and
  \<open>beforeStats\<close> of the call of \<open>execute\<close> that spawned it.
\<close>

definition onClose :: "nat \<Rightarrow> int option \<Rightarrow> string option \<Rightarrow> close_world \<Rightarrow> state \<Rightarrow> state" where
  "onClose p code sig cw s =
     (let compileCommandsPath = capturedPath (children s ! p);
          beforeStats = capturedBeforeStats (children s ! p);
          s1 = emit (OutAppendLine (nl @ dash40)) s;
          s2 =
            (if signalGiven sig then
               emits [OutAppendLine (''Command terminated by signal: '' @ the sig),
                      ShowWarningMessage ''Command terminated''] s1
             else if code = Some 0 then
               (let snap = getFileStats compileCommandsPath (afterFs cw);
                    afterStats = fst snap;
                    s3 = emits
                      (OutAppendLine (''Command executed successfully (exit code: '' @ codeText code @ '')'')
                       # snd snap) s1
                in if isCompileCommandsUpdated beforeStats afterStats then
                     emits
                       (OutAppendLine ''[Clangd] compile_commands.json has been updated''
                        # restartClangd (workspaceRoot s) compileCommandsPath cw) s3
                   else emit (ShowInformationMessage ''Command executed successfully'') s3)
             else
               emits [OutAppendLine (''Command execution failed (exit code: '' @ codeText code @ '')''),
                      ShowErrorMessage (''Command failed with exit code: '' @ codeText code)] s1);
          s4 = emit (OutAppendLine (dash40 @ nl)) s2
      in resolve p (s4\<lparr>currentProcess := None\<rparr>))"

subsection \<open>The entry point\<close>

definition shouldExecuteLocally :: "bool option \<Rightarrow> bool \<Rightarrow> bool" where
  "shouldExecuteLocally executeLocallyArg globalExecuteLocally =
     (executeLocallyArg = Some True \<or> globalExecuteLocally = True)"

text \<open>The two reports with which \<open>execute\<close> rejects a request.\<close>

definition workspaceRootRejected :: "effect list" where
  "workspaceRootRejected =
     [OutAppendLine (nl @ ''[Error] Workspace root does not meet requirements, cannot execute command''),
      ShowErrorMessage ''Workspace root does not meet requirements. Please open the project in the correct directory'']"

definition containerNotConfigured :: "effect list" where
  "containerNotConfigured =
     [OutShow,
      OutAppendLine (nl @ rule40),
      OutAppendLine ''Docker Container Not Configured'',
      OutAppendLine rule40,
      OutAppendLine (nl @ ''This plugin requires Docker container configuration.''),
      OutAppendLine (nl @ ''How to configure:''),
      OutAppendLine ''   1. Open Command Palette (Ctrl/Cmd + Shift + P)'',
      OutAppendLine (''   2. Search: '' @ dq @ ''DeepRoute Compile Commands: Configure Docker Container'' @ dq),
      OutAppendLine ''   3. Enter your container name (e.g., deeproute-dev-x86-2004)'',
      OutAppendLine (nl @ ''   Or manually add to settings.json:''),
      OutAppendLine (''   '' @ dq @ ''deeproute-compile-commands.dockerContainerName'' @ dq @ '': ''
                     @ dq @ ''your-container-name'' @ dq),
      OutAppendLine (nl @ rule40 @ nl),
      ShowErrorPrompt ''Docker container is not configured. Please configure it in settings.''
        [''Configure Now'']]"

text \<open>The result is \<open>Some e\<close> when the promise returned by \<open>execute\<close> is rejected with \<open>e\<close>.\<close>

definition execute :: "configuration \<Rightarrow> world \<Rightarrow> string \<Rightarrow> string option \<Rightarrow> bool option \<Rightarrow> state \<Rightarrow> fault option \<times> state" where
  "execute config w command cwd executeLocallyArg s =
     (if \<not> workspaceRootValid s then
        (None, emits workspaceRootRejected s)
      else
        (let globalExecuteLocally = config_get (cfg_executeLocally config) False;
             dockerContainerName = config_get (cfg_dockerContainerName config) ''deeproute-dev-x86-2004''
         in if shouldExecuteLocally executeLocallyArg globalExecuteLocally then
              (case executeLocally config w command cwd s of
                 (Throw e, s1) \<Rightarrow> (Some e, s1)
               | (Return u, s1) \<Rightarrow> (None, s1)
               | (Normal, s1) \<Rightarrow> (None, s1))
            else if dockerContainerName = [] \<or> trim dockerContainerName = [] then
              (None, emits containerNotConfigured s)
            else
              (case executeInDocker w (trim dockerContainerName) command cwd s of
                 (Throw e, s1) \<Rightarrow> (Some e, s1)
               | (Return u, s1) \<Rightarrow> (None, s1)
               | (Normal, s1) \<Rightarrow> (None, s1))))"

text \<open>
  \<open>executeCommandInternal\<close> of the extension looks for the per-command switch among the
  predefined commands: the first entry in object form whose command is the one executed.
  (The entry it first adds to the history is kept by the tree view and is not part of
  this state.)
\<close>

fun findExecuteLocally :: "command_entry list \<Rightarrow> string \<Rightarrow> bool option" where
  "findExecuteLocally [] command = None"
| "findExecuteLocally (Bare text # cmds) command = findExecuteLocally cmds command"
| "findExecuteLocally (Entry c dir alias flag # cmds) command =
     (if c = command then Some (flag = Some True) else findExecuteLocally cmds command)"

definition executeCommandInternal :: "configuration \<Rightarrow> world \<Rightarrow> string \<Rightarrow> string option \<Rightarrow> state \<Rightarrow> fault option \<times> state" where
  "executeCommandInternal config w command cwd s =
     (let predefinedCommands = config_get (cfg_predefinedCommands config) [];
          executeLocallyArg = findExecuteLocally predefinedCommands command
      in execute config w command cwd executeLocallyArg s)"

section \<open>Events\<close>

text \<open>
  What can happen to the extension, one event at a time: a command is executed, the stop
  verb is invoked, the extension is deactivated, the progress notification of a process is
  cancelled, a process writes output, exits, reports an error or closes, and the oldest
  pending timer of \<open>stop\<close> fires (3000 ms after it was armed). Events of a process that
  was never spawned, a second \<open>close\<close> and a cancellation after the promise is resolved
  do not occur and leave the state as it is. A handler runs to its end before the next
  event is taken: what it awaits (the answer to the prompt, the list of commands, the
  restart) is there at once.
\<close>

datatype event =
    ExecuteEv configuration world string "string option"
  | StopEv
  | DeactivateEv
  | CancelEv nat
  | DataEv nat string
  | ExitEv nat
  | ErrorEv nat string
  | CloseEv nat "int option" "string option" close_world
  | TimerEv

definition exited :: "nat \<Rightarrow> state \<Rightarrow> state" where
  "exited p s = s\<lparr>children := (children s)[p := (children s ! p)\<lparr>handle_open := False\<rparr>]\<rparr>"

definition closing :: "nat \<Rightarrow> state \<Rightarrow> state" where
  "closing p s = s\<lparr>children := (children s)[p := (children s ! p)\<lparr>handle_open := False, closed := True\<rparr>]\<rparr>"

fun step :: "event \<Rightarrow> state \<Rightarrow> state" where
  "step (ExecuteEv config w command cwd) s =
     (case executeCommandInternal config w command cwd s of
        (None, s1) \<Rightarrow> s1
      | (Some e, s1) \<Rightarrow> emit (Rejected e) s1)"
| "step StopEv s = stop s"
| "step DeactivateEv s = dispose s"
| "step (CancelEv p) s =
     (if p < length (children s) \<and> \<not> resolved (children s ! p) then onCancellationRequested p s else s)"
| "step (DataEv p text) s =
     (if p < length (children s) \<and> \<not> closed (children s ! p) then emit (OutAppend text) s else s)"
| "step (ExitEv p) s =
     (if p < length (children s) then exited p s else s)"
| "step (ErrorEv p msg) s =
     (if p < length (children s) \<and> \<not> closed (children s ! p) then onError p msg s else s)"
| "step (CloseEv p code sig cw) s =
     (if p < length (children s) \<and> \<not> closed (children s ! p) then onClose p code sig cw (closing p s) else s)"
| "step TimerEv s =
     (case timers s of
        [] \<Rightarrow> s
      | stopped # rest \<Rightarrow> stopTimeout (s\<lparr>timers := rest\<rparr>))"

definition run :: "event list \<Rightarrow> state \<Rightarrow> state" where
  "run evs s = fold step evs s"

section \<open>Observations on traces\<close>

text \<open>The effects that a call adds to the trace of the state it starts from.\<close>

definition added :: "state \<Rightarrow> state \<Rightarrow> effect list" where
  "added s s' = drop (length (trace s)) (trace s')"

text \<open>The confirmation prompt of the single-flight rule.\<close>

definition stopPrompt :: effect where
  "stopPrompt = ShowWarningPrompt ''A command is currently running. Stop it?''
                  [''Stop and Execute New Command'', ''Cancel'']"

text \<open>The field \<open>currentProcess\<close>, when set, holds the process spawned last.\<close>

definition handleInv :: "state \<Rightarrow> bool" where
  "handleInv s = (case currentProcess s of None \<Rightarrow> True | Some p \<Rightarrow> Suc p = length (children s))"

fun isSpawn :: "effect \<Rightarrow> bool" where
  "isSpawn (Spawn p file args options) = True"
| "isSpawn e = False"

fun isKill :: "effect \<Rightarrow> bool" where
  "isKill (Kill p sig delivered) = True"
| "isKill e = False"

text \<open>Any start of a child process, synchronous or not.\<close>

fun isProcessStart :: "effect \<Rightarrow> bool" where
  "isProcessStart (Spawn p file args options) = True"
| "isProcessStart (SpawnSync file args r) = True"
| "isProcessStart (ExecSync cmd r) = True"
| "isProcessStart e = False"

text \<open>A probe of the file system, as \<open>getFileStats\<close> makes two of.\<close>

fun isFsProbe :: "effect \<Rightarrow> bool" where
  "isFsProbe (ExistsSync path r) = True"
| "isFsProbe (StatSync path r) = True"
| "isFsProbe e = False"

text \<open>The substitution step of the path rewriter: the \<open>sed\<close> command.\<close>

fun isSubstitution :: "effect \<Rightarrow> bool" where
  "isSubstitution (ExecSync cmd r) = startsWith cmd ''sed''"
| "isSubstitution e = False"

text \<open>The refresh collaborator is the command \<open>clangd.restart\<close> of the editor.\<close>

definition refreshInvoked :: "effect list \<Rightarrow> bool" where
  "refreshInvoked tr = (ExecuteCommand ''clangd.restart'' \<in> set tr)"

text \<open>The refresh is attempted when \<open>restartClangd\<close> asks for the registered commands.\<close>

definition refreshAttempted :: "effect list \<Rightarrow> bool" where
  "refreshAttempted tr = (GetCommands \<in> set tr)"

text \<open>A notification shown to the user, as opposed to a line of the output channel.\<close>

fun isNotification :: "effect \<Rightarrow> bool" where
  "isNotification (ShowWarningPrompt m buttons) = True"
| "isNotification (ShowErrorPrompt m buttons) = True"
| "isNotification (ShowWarningMessage m) = True"
| "isNotification (ShowErrorMessage m) = True"
| "isNotification (ShowInformationMessage m) = True"
| "isNotification e = False"

text \<open>The capability probe of \<open>restartClangd\<close>: a registered command starts with \<open>clangd\<close>.\<close>

definition refreshAvailable :: "close_world \<Rightarrow> bool" where
  "refreshAvailable cw =
     (case getCommands cw of
        Inl e \<Rightarrow> False
      | Inr allCommands \<Rightarrow> filter (\<lambda>cmd. startsWith cmd ''clangd'') allCommands \<noteq> [])"

text \<open>An \<open>inspect\<close> call reports the container as running: exit status 0 and output \<open>true\<close>.\<close>

definition reportsRunning :: "spawn_sync_returns \<Rightarrow> bool" where
  "reportsRunning r =
     (status r = Some 0 \<and> (case stdout r of None \<Rightarrow> False | Some out \<Rightarrow> trim out = ''true''))"

text \<open>
  A monitor for the order of container calls in a trace. \<open>fresh\<close> holds when the most
  recent call to the container runtime was an \<open>inspect\<close> that reported the container as
  running; any other synchronous call to the runtime (\<open>start\<close>, \<open>ps\<close>) ends that. The
  trace is accepted when every spawn of \<open>docker exec\<close> happens while \<open>fresh\<close> holds.
\<close>

fun spawnGuarded :: "bool \<Rightarrow> effect list \<Rightarrow> bool" where
  "spawnGuarded fresh [] = True"
| "spawnGuarded fresh (SpawnSync file args r # es) =
     (if file = ''docker'' then
        (if take 1 args = [''inspect''] then spawnGuarded (reportsRunning r) es
         else spawnGuarded False es)
      else spawnGuarded fresh es)"
| "spawnGuarded fresh (Spawn p file args options # es) =
     ((if file = ''docker'' \<and> take 1 args = [''exec''] then fresh else True) \<and> spawnGuarded fresh es)"
| "spawnGuarded fresh (e # es) = spawnGuarded fresh es"

text \<open>
  The exit status of \<open>grep -q /sandbox file\<close> on a readable file with the given content:
  0 when the marker occurs in it, 1 when it does not.
\<close>

definition grepQuietStatus :: "string \<Rightarrow> int" where
  "grepQuietStatus content = (if includes_str content ''/sandbox'' then 0 else 1)"

fun isBare :: "command_entry \<Rightarrow> bool" where
  "isBare (Bare text) = True"
| "isBare (Entry c dir alias flag) = False"

section \<open>Example inputs\<close>

text \<open>Results of \<open>spawnSync\<close>: a clean exit, an exit with status 1, a failed spawn.\<close>

definition exitedOk :: "string \<Rightarrow> spawn_sync_returns" where
  "exitedOk out = \<lparr>error = None, status = Some 0, stdout = Some out, stderr = Some []\<rparr>"

definition exitedWith1 :: "string \<Rightarrow> spawn_sync_returns" where
  "exitedWith1 err = \<lparr>error = None, status = Some 1, stdout = Some [], stderr = Some err\<rparr>"

definition spawnFailed :: "string \<Rightarrow> spawn_sync_returns" where
  "spawnFailed err = \<lparr>error = Some err, status = None, stdout = None, stderr = None\<rparr>"

text \<open>
  A world in which the user confirms the prompt, the container is running and the
  artifact does not exist yet.
\<close>

definition world0 :: world where
  "world0 =
     \<lparr>answer = Some ''Stop and Execute New Command'', timeString = ''12:00:00'',
      processCwd = ''/'', processEnv = [],
      inspectResult = exitedOk (''true'' @ nl), listResult = exitedOk [],
      startResult = exitedOk [], verifyResult = exitedOk (''true'' @ nl),
      cwdExists = True,
      beforeFs = \<lparr>existsSync = False, statSync = Inl (Thrown ''ENOENT'')\<rparr>,
      idU = Inr (''1000'' @ nl), idG = Inr (''1000'' @ nl)\<rparr>"

text \<open>Nothing is set; every command runs in the default container.\<close>

definition configDefault :: configuration where
  "configDefault =
     \<lparr>cfg_executeLocally = None, cfg_dockerContainerName = None, cfg_shell = None,
      cfg_env = None, cfg_predefinedCommands = None\<rparr>"

text \<open>The global switch for local execution is on.\<close>

definition configLocal :: configuration where
  "configLocal = configDefault\<lparr>cfg_executeLocally := Some True\<rparr>"

text \<open>A close event after which the artifact exists, with the marker in it, and \<open>clangd\<close> is installed.\<close>

definition closeWorld0 :: close_world where
  "closeWorld0 =
     \<lparr>afterFs = \<lparr>existsSync = True, statSync = Inr \<lparr>st_mtime = 1700000000000, st_size = 2048\<rparr>\<rparr>,
      rewriteFs = \<lparr>existsSync = True, statSync = Inr \<lparr>st_mtime = 1700000000000, st_size = 2048\<rparr>\<rparr>,
      grepQuiet = exitedOk [],
      grepCount = exitedOk (''/sandbox'' @ nl @ ''/sandbox'' @ nl),
      sedResult = Inr [],
      durationText = ''0.01'',
      getCommands = Inr [''workbench.action.files.save'', ''clangd.restart''],
      restartResult = None\<rparr>"

text \<open>The extension opened on the required workspace root of the user \<open>dev\<close>.\<close>

definition state0 :: state where
  "state0 = constructor ''/home/dev'' ''/home/dev/codetree/repo''"

text \<open>The state after \<open>make\<close> has been started on the host: process 0 is running.\<close>

definition stateRunning :: state where
  "stateRunning = run [ExecuteEv configLocal world0 ''make'' None] state0"

text \<open>
  The user has then replaced \<open>make\<close> by \<open>ninja\<close>, confirming the prompt, and process 0
  has died of the \<open>SIGTERM\<close> that \<open>stop\<close> sent it: its \<open>close\<close> event has arrived.
\<close>

definition stateOrphaned :: state where
  "stateOrphaned =
     run [ExecuteEv configLocal world0 ''ninja'' None,
          CloseEv 0 None (Some ''SIGTERM'') closeWorld0] stateRunning"

text \<open>The container does not exist, and \<open>docker ps\<close> cannot be spawned.\<close>

definition worldMissing :: world where
  "worldMissing =
     world0\<lparr>inspectResult := exitedWith1 (''Error: No such object: deeproute-dev-x86-2004'' @ nl),
            listResult := spawnFailed ''spawnSync docker EAGAIN''\<rparr>"

text \<open>As \<open>closeWorld0\<close>, but no command of \<open>clangd\<close> is registered.\<close>

definition closeWorldNoClangd :: close_world where
  "closeWorldNoClangd = closeWorld0\<lparr>getCommands := Inr [''workbench.action.files.save'']\<rparr>"

section \<open>How the operations change the state\<close>

lemmas example_defs = exitedOk_def exitedWith1_def spawnFailed_def world0_def configDefault_def configLocal_def
  closeWorld0_def state0_def stateRunning_def worldMissing_def closeWorldNoClangd_def

lemma emit_simps [simp]:
  "trace (emit e s) = trace s @ [e]"
  "currentProcess (emit e s) = currentProcess s"
  "workspaceRoot (emit e s) = workspaceRoot s"
  "workspaceRootValid (emit e s) = workspaceRootValid s"
  "children (emit e s) = children s"
  "timers (emit e s) = timers s"
  by (simp_all add: emit_def)

lemma emits_simps [simp]:
  "trace (emits es s) = trace s @ es"
  "currentProcess (emits es s) = currentProcess s"
  "workspaceRoot (emits es s) = workspaceRoot s"
  "workspaceRootValid (emits es s) = workspaceRootValid s"
  "children (emits es s) = children s"
  "timers (emits es s) = timers s"
  by (simp_all add: emits_def)

lemma kill_simps [simp]:
  "trace (kill p sig s) = trace s @ [Kill p sig (p < length (children s) \<and> handle_open (children s ! p))]"
  "currentProcess (kill p sig s) = currentProcess s"
  "workspaceRoot (kill p sig s) = workspaceRoot s"
  "workspaceRootValid (kill p sig s) = workspaceRootValid s"
  "length (children (kill p sig s)) = length (children s)"
  "timers (kill p sig s) = timers s"
  by (simp_all add: kill_def)

lemma stop_simps [simp]:
  "currentProcess (stop s) = None"
  "workspaceRoot (stop s) = workspaceRoot s"
  "workspaceRootValid (stop s) = workspaceRootValid s"
  "length (children (stop s)) = length (children s)"
  by (simp_all add: stop_def Let_def split: option.splits)

text \<open>The effects of \<open>stop\<close> when process \<open>p\<close> is the current one.\<close>

lemma stop_trace:
  "trace (stop s) = trace s @
     (case currentProcess s of
        Some p \<Rightarrow> [OutAppendLine (nl @ ''[Stop] Terminating command execution...''),
                   Kill p SIGTERM (p < length (children s) \<and> handle_open (children s ! p)),
                   SetTimeout 3000, ShowInformationMessage ''Command execution stopped'']
      | None \<Rightarrow> [ShowInformationMessage ''No command is currently running''])"
  by (simp add: stop_def Let_def split: option.splits)

lemma spawn_simps [simp]:
  "trace (spawn file args options path before s) = trace s @ [Spawn (length (children s)) file args options]"
  "currentProcess (spawn file args options path before s) = Some (length (children s))"
  "workspaceRoot (spawn file args options path before s) = workspaceRoot s"
  "workspaceRootValid (spawn file args options path before s) = workspaceRootValid s"
  "length (children (spawn file args options path before s)) = Suc (length (children s))"
  "timers (spawn file args options path before s) = timers s"
  by (simp_all add: spawn_def Let_def)

lemma resolve_simps [simp]:
  "trace (resolve p s) = trace s @ [Resolve p]"
  "currentProcess (resolve p s) = currentProcess s"
  "workspaceRoot (resolve p s) = workspaceRoot s"
  "workspaceRootValid (resolve p s) = workspaceRootValid s"
  "length (children (resolve p s)) = length (children s)"
  "timers (resolve p s) = timers s"
  by (simp_all add: resolve_def)

lemma added_emit [simp]: "added s (emit e s) = [e]"
  by (simp add: added_def)

lemma added_emits [simp]: "added s (emits es s) = es"
  by (simp add: added_def)

lemma added_extends: "trace s' = trace s @ es \<Longrightarrow> added s s' = es"
  by (simp add: added_def)

lemma stopCurrentIfAny_simps [simp]:
  "length (children (snd (stopCurrentIfAny w s))) = length (children s)"
  "workspaceRoot (snd (stopCurrentIfAny w s)) = workspaceRoot s"
  "workspaceRootValid (snd (stopCurrentIfAny w s)) = workspaceRootValid s"
  "currentProcess (snd (stopCurrentIfAny w s)) =
     (if fst (stopCurrentIfAny w s) = Normal then None else currentProcess s)"
  by (simp_all add: stopCurrentIfAny_def Let_def)

lemma stopCurrentIfAny_fst:
  "fst (stopCurrentIfAny w s) =
     (if currentProcess s \<noteq> None \<and> answer w \<noteq> Some ''Stop and Execute New Command'' then Return () else Normal)"
  by (simp add: stopCurrentIfAny_def Let_def)

lemma stopCurrentIfAny_trace:
  "trace (snd (stopCurrentIfAny w s)) = trace s @
     (case currentProcess s of
        None \<Rightarrow> []
      | Some p \<Rightarrow>
          stopPrompt #
            (if answer w \<noteq> Some ''Stop and Execute New Command'' then []
             else [OutAppendLine (nl @ ''[Stop] Terminating command execution...''),
                   Kill p SIGTERM (p < length (children s) \<and> handle_open (children s ! p)),
                   SetTimeout 3000, ShowInformationMessage ''Command execution stopped'']))"
  by (simp add: stopCurrentIfAny_def Let_def stop_trace stopPrompt_def split: option.splits)

lemma runInDocker_simps [simp]:
  "workspaceRoot (snd (runInDocker w n c cwd s)) = workspaceRoot s"
  "workspaceRootValid (snd (runInDocker w n c cwd s)) = workspaceRootValid s"
  "length (children (snd (runInDocker w n c cwd s))) =
     (if fst (runInDocker w n c cwd s) = Normal then Suc (length (children s)) else length (children s))"
  "currentProcess (snd (runInDocker w n c cwd s)) =
     (if fst (runInDocker w n c cwd s) = Normal then Some (length (children s)) else currentProcess s)"
  by (auto simp add: runInDocker_def Let_def split: completion.splits sum.splits prod.splits)

lemma runInDocker_trace:
  "trace (snd (runInDocker w n c cwd s)) = trace s @
     dockerBanner c n (containerWorkDirOf cwd) (timeString w)
     @ snd (verifyContainer w n)
     @ (if fst (verifyContainer w n) = Normal then
          snd (buildDockerExec w (workspaceRoot s) n c cwd
                 (containerWorkDirOf cwd))
          @ (case fst (buildDockerExec w (workspaceRoot s) n c cwd
                         (containerWorkDirOf cwd)) of
               Inl e \<Rightarrow> []
             | Inr built \<Rightarrow>
                 [WithProgress (''Executing in container: '' @ c),
                  Spawn (length (children s)) ''docker'' (snd (snd built))
                    \<lparr>opt_cwd = workspaceRoot s, opt_env = processEnv w, opt_shell = None\<rparr>])
        else [])"
  by (simp add: runInDocker_def Let_def split: completion.splits sum.splits prod.splits)

lemma runInDocker_fst:
  "fst (runInDocker w n c cwd s) = Normal \<longleftrightarrow>
     fst (verifyContainer w n) = Normal \<and>
     (\<exists>built. fst (buildDockerExec w (workspaceRoot s) n c cwd (containerWorkDirOf cwd)) = Inr built)"
  by (simp add: runInDocker_def Let_def split: completion.splits sum.splits prod.splits)

lemma runLocally_simps [simp]:
  "workspaceRoot (snd (runLocally config w c cwd s)) = workspaceRoot s"
  "workspaceRootValid (snd (runLocally config w c cwd s)) = workspaceRootValid s"
  "length (children (snd (runLocally config w c cwd s))) =
     (if fst (runLocally config w c cwd s) = Normal then Suc (length (children s)) else length (children s))"
  "currentProcess (snd (runLocally config w c cwd s)) =
     (if fst (runLocally config w c cwd s) = Normal then Some (length (children s)) else currentProcess s)"
  by (simp_all add: runLocally_def Let_def)

lemma runLocally_trace:
  "trace (snd (runLocally config w c cwd s)) = trace s @
     (if cwdGiven cwd then [ExistsSync (actualCwdOf (processCwd w) (workspaceRoot s) cwd) (cwdExists w)] else [])
     @ (if cwdGiven cwd \<and> \<not> cwdExists w
        then [ShowErrorMessage (''Specified directory does not exist: ''
                @ actualCwdOf (processCwd w) (workspaceRoot s) cwd)]
        else snd (getFileStats (path_join [actualCwdOf (processCwd w) (workspaceRoot s) cwd, ''compile_commands.json''])
                    (beforeFs w))
             @ localBanner c (actualCwdOf (processCwd w) (workspaceRoot s) cwd) (timeString w)
             @ [WithProgress (''Executing: '' @ c),
                Spawn (length (children s)) c []
                  \<lparr>opt_cwd = actualCwdOf (processCwd w) (workspaceRoot s) cwd,
                   opt_env = config_get (cfg_env config) [] @ processEnv w,
                   opt_shell = (if config_get (cfg_shell config) [] \<noteq> []
                                then Some (config_get (cfg_shell config) []) else None)\<rparr>])"
  by (simp add: runLocally_def Let_def)

lemma runLocally_fst:
  "fst (runLocally config w c cwd s) = Normal \<longleftrightarrow> \<not> (cwdGiven cwd \<and> \<not> cwdExists w)"
  by (simp add: runLocally_def Let_def)

lemma executeInDocker_unfold:
  "executeInDocker w n c cwd s =
     (if fst (stopCurrentIfAny w s) = Normal then runInDocker w n c cwd (snd (stopCurrentIfAny w s))
      else (Return (), snd (stopCurrentIfAny w s)))"
  by (simp add: executeInDocker_def stopCurrentIfAny_fst split: prod.splits completion.splits)
     (auto simp: stopCurrentIfAny_def Let_def)

lemma executeLocally_unfold:
  "executeLocally config w c cwd s =
     (if fst (stopCurrentIfAny w s) = Normal then runLocally config w c cwd (snd (stopCurrentIfAny w s))
      else (Return (), snd (stopCurrentIfAny w s)))"
  by (simp add: executeLocally_def stopCurrentIfAny_fst split: prod.splits completion.splits)
     (auto simp: stopCurrentIfAny_def Let_def)

lemma executeInDocker_simps [simp]:
  "workspaceRoot (snd (executeInDocker w n c cwd s)) = workspaceRoot s"
  "workspaceRootValid (snd (executeInDocker w n c cwd s)) = workspaceRootValid s"
  "length (children (snd (executeInDocker w n c cwd s))) =
     (if fst (executeInDocker w n c cwd s) = Normal then Suc (length (children s)) else length (children s))"
  by (simp_all add: executeInDocker_unfold)

lemma executeInDocker_current:
  "currentProcess (snd (executeInDocker w n c cwd s)) =
     (if fst (executeInDocker w n c cwd s) = Normal then Some (length (children s))
      else if fst (stopCurrentIfAny w s) = Normal then None else currentProcess s)"
  by (simp add: executeInDocker_unfold)

lemma executeLocally_simps [simp]:
  "workspaceRoot (snd (executeLocally config w c cwd s)) = workspaceRoot s"
  "workspaceRootValid (snd (executeLocally config w c cwd s)) = workspaceRootValid s"
  "length (children (snd (executeLocally config w c cwd s))) =
     (if fst (executeLocally config w c cwd s) = Normal then Suc (length (children s)) else length (children s))"
  by (simp_all add: executeLocally_unfold)

lemma executeLocally_current:
  "currentProcess (snd (executeLocally config w c cwd s)) =
     (if fst (executeLocally config w c cwd s) = Normal then Some (length (children s))
      else if fst (stopCurrentIfAny w s) = Normal then None else currentProcess s)"
  by (simp add: executeLocally_unfold)

lemma executeInDocker_added:
  "added s (snd (executeInDocker w n c cwd s)) =
     added s (snd (stopCurrentIfAny w s))
     @ (if fst (stopCurrentIfAny w s) = Normal
        then added (snd (stopCurrentIfAny w s)) (snd (runInDocker w n c cwd (snd (stopCurrentIfAny w s))))
        else [])"
  by (simp add: executeInDocker_unfold added_def runInDocker_trace stopCurrentIfAny_trace)

lemma executeLocally_added:
  "added s (snd (executeLocally config w c cwd s)) =
     added s (snd (stopCurrentIfAny w s))
     @ (if fst (stopCurrentIfAny w s) = Normal
        then added (snd (stopCurrentIfAny w s)) (snd (runLocally config w c cwd (snd (stopCurrentIfAny w s))))
        else [])"
  by (simp add: executeLocally_unfold added_def runLocally_trace stopCurrentIfAny_trace)

lemma stopCurrentIfAny_added:
  "added s (snd (stopCurrentIfAny w s)) =
     (case currentProcess s of
        None \<Rightarrow> []
      | Some p \<Rightarrow>
          stopPrompt #
            (if answer w \<noteq> Some ''Stop and Execute New Command'' then []
             else [OutAppendLine (nl @ ''[Stop] Terminating command execution...''),
                   Kill p SIGTERM (p < length (children s) \<and> handle_open (children s ! p)),
                   SetTimeout 3000, ShowInformationMessage ''Command execution stopped'']))"
  by (simp add: added_def stopCurrentIfAny_trace)

lemma stopCurrentIfAny_decline:
  "currentProcess s = Some p \<Longrightarrow> answer w \<noteq> Some ''Stop and Execute New Command'' \<Longrightarrow>
   stopCurrentIfAny w s = (Return (), emit stopPrompt s)"
  by (simp add: stopCurrentIfAny_def stopPrompt_def Let_def)

lemma executeLocally_decline:
  "currentProcess s = Some p \<Longrightarrow> answer w \<noteq> Some ''Stop and Execute New Command'' \<Longrightarrow>
   executeLocally config w command cwd s = (Return (), emit stopPrompt s)"
  by (simp add: executeLocally_def stopCurrentIfAny_decline)

lemma executeInDocker_decline:
  "currentProcess s = Some p \<Longrightarrow> answer w \<noteq> Some ''Stop and Execute New Command'' \<Longrightarrow>
   executeInDocker w containerName command cwd s = (Return (), emit stopPrompt s)"
  by (simp add: executeInDocker_def stopCurrentIfAny_decline)

lemma execute_snd:
  "snd (execute config w c cwd flag s) =
     (if \<not> workspaceRootValid s then emits workspaceRootRejected s
      else if shouldExecuteLocally flag (config_get (cfg_executeLocally config) False)
           then snd (executeLocally config w c cwd s)
      else if trim (config_get (cfg_dockerContainerName config) ''deeproute-dev-x86-2004'') = []
           then emits containerNotConfigured s
      else snd (executeInDocker w (trim (config_get (cfg_dockerContainerName config) ''deeproute-dev-x86-2004'')) c cwd s))"
  by (auto simp add: execute_def Let_def trim_def split: prod.splits completion.splits)

lemma execute_simps [simp]:
  "workspaceRoot (snd (execute config w c cwd flag s)) = workspaceRoot s"
  "workspaceRootValid (snd (execute config w c cwd flag s)) = workspaceRootValid s"
  by (simp_all add: execute_snd)

lemma execute_decline:
  assumes "currentProcess s = Some p" "answer w \<noteq> Some ''Stop and Execute New Command''"
  shows "currentProcess (snd (execute config w command cwd flag s)) = Some p
       \<and> children (snd (execute config w command cwd flag s)) = children s
       \<and> timers (snd (execute config w command cwd flag s)) = timers s
       \<and> filter isSpawn (added s (snd (execute config w command cwd flag s))) = []
       \<and> filter isKill (added s (snd (execute config w command cwd flag s))) = []"
  using assms
  by (simp add: execute_snd executeLocally_decline executeInDocker_decline stopPrompt_def
        workspaceRootRejected_def containerNotConfigured_def)

lemma execute_handleInv: "handleInv s \<Longrightarrow> handleInv (snd (execute config w c cwd flag s))"
  by (auto simp add: execute_snd handleInv_def executeLocally_current executeInDocker_current
           split: option.splits)

lemma stopTimeout_simps [simp]:
  "currentProcess (stopTimeout s) = currentProcess s"
  "workspaceRoot (stopTimeout s) = workspaceRoot s"
  "workspaceRootValid (stopTimeout s) = workspaceRootValid s"
  "length (children (stopTimeout s)) = length (children s)"
  by (simp_all add: stopTimeout_def split: option.splits)

lemma dispose_simps [simp]:
  "currentProcess (dispose s) = None"
  "workspaceRoot (dispose s) = workspaceRoot s"
  "workspaceRootValid (dispose s) = workspaceRootValid s"
  "length (children (dispose s)) = length (children s)"
  by (simp_all add: dispose_def split: option.splits)

lemma onCancellationRequested_simps [simp]:
  "currentProcess (onCancellationRequested p s) = None"
  "workspaceRoot (onCancellationRequested p s) = workspaceRoot s"
  "workspaceRootValid (onCancellationRequested p s) = workspaceRootValid s"
  "length (children (onCancellationRequested p s)) = length (children s)"
  by (simp_all add: onCancellationRequested_def)

lemma onError_simps [simp]:
  "currentProcess (onError p msg s) = None"
  "workspaceRoot (onError p msg s) = workspaceRoot s"
  "workspaceRootValid (onError p msg s) = workspaceRootValid s"
  "length (children (onError p msg s)) = length (children s)"
  by (simp_all add: onError_def Let_def)

lemma onClose_simps [simp]:
  "currentProcess (onClose p code sig cw s) = None"
  "workspaceRoot (onClose p code sig cw s) = workspaceRoot s"
  "workspaceRootValid (onClose p code sig cw s) = workspaceRootValid s"
  "length (children (onClose p code sig cw s)) = length (children s)"
  by (simp_all add: onClose_def Let_def)

lemma exited_simps [simp]:
  "currentProcess (exited p s) = currentProcess s"
  "workspaceRoot (exited p s) = workspaceRoot s"
  "workspaceRootValid (exited p s) = workspaceRootValid s"
  "length (children (exited p s)) = length (children s)"
  "trace (exited p s) = trace s"
  by (simp_all add: exited_def)

lemma closing_simps [simp]:
  "currentProcess (closing p s) = currentProcess s"
  "workspaceRoot (closing p s) = workspaceRoot s"
  "workspaceRootValid (closing p s) = workspaceRootValid s"
  "length (children (closing p s)) = length (children s)"
  "trace (closing p s) = trace s"
  by (simp_all add: closing_def)

lemma step_ExecuteEv:
  "step (ExecuteEv config w command cwd) s =
     (case fst (execute config w command cwd
                  (findExecuteLocally (config_get (cfg_predefinedCommands config) []) command) s) of
        None \<Rightarrow> snd (execute config w command cwd
                      (findExecuteLocally (config_get (cfg_predefinedCommands config) []) command) s)
      | Some e \<Rightarrow> emit (Rejected e)
                   (snd (execute config w command cwd
                      (findExecuteLocally (config_get (cfg_predefinedCommands config) []) command) s)))"
  by (simp add: executeCommandInternal_def Let_def split: prod.splits option.splits)

declare step.simps(1) [simp del]

lemma step_handleInv: "handleInv s \<Longrightarrow> handleInv (step ev s)"
proof (cases ev)
  case (ExecuteEv config w command cwd)
  assume "handleInv s"
  then have "handleInv (snd (execute config w command cwd
                (findExecuteLocally (config_get (cfg_predefinedCommands config) []) command) s))"
    by (rule execute_handleInv)
  then show ?thesis using ExecuteEv
    by (simp add: step_ExecuteEv handleInv_def split: option.splits)
next
  case TimerEv
  assume "handleInv s"
  then show ?thesis using TimerEv
    by (cases "timers s") (simp_all add: handleInv_def split: option.splits)
qed (simp_all add: handleInv_def split: option.splits)

lemma step_root [simp]:
  "workspaceRootValid (step ev s) = workspaceRootValid s"
  "workspaceRoot (step ev s) = workspaceRoot s"
proof -
  show "workspaceRootValid (step ev s) = workspaceRootValid s"
  proof (cases ev)
    case (ExecuteEv config w command cwd)
    then show ?thesis by (simp add: step_ExecuteEv split: option.splits)
  next
    case TimerEv
    then show ?thesis by (cases "timers s") simp_all
  qed simp_all
  show "workspaceRoot (step ev s) = workspaceRoot s"
  proof (cases ev)
    case (ExecuteEv config w command cwd)
    then show ?thesis by (simp add: step_ExecuteEv split: option.splits)
  next
    case TimerEv
    then show ?thesis by (cases "timers s") simp_all
  qed simp_all
qed

lemma run_handleInv: "handleInv s \<Longrightarrow> handleInv (run evs s)"
  unfolding run_def by (induction evs arbitrary: s) (simp_all add: step_handleInv)

lemma run_root [simp]:
  "workspaceRootValid (run evs s) = workspaceRootValid s"
  "workspaceRoot (run evs s) = workspaceRoot s"
  unfolding run_def by (induction evs arbitrary: s) simp_all

lemma constructor_handleInv: "handleInv (constructor homeDir root)"
  by (simp add: constructor_def checkWorkspaceRoot_def Let_def handleInv_def)

lemma constructor_valid:
  "workspaceRootValid (constructor homeDir root) = (root = path_join [homeDir, ''codetree'', ''repo''])"
  "workspaceRoot (constructor homeDir root) = root"
  by (simp_all add: constructor_def checkWorkspaceRoot_def Let_def)

text \<open>Facts about the example inputs.\<close>

lemma state0_simps [simp]:
  "workspaceRootValid state0"
  "workspaceRoot state0 = ''/home/dev/codetree/repo''"
  "currentProcess state0 = None"
  "children state0 = []"
  "timers state0 = []"
  "trace state0 = []"
  by (simp_all add: state0_def constructor_def checkWorkspaceRoot_def Let_def
        path_join_def path_normalize_def normalizeString_def)

lemma configDefault_simps [simp]:
  "config_get (cfg_executeLocally configDefault) False = False"
  "config_get (cfg_executeLocally configLocal) False = True"
  "trim (config_get (cfg_dockerContainerName configDefault) ''deeproute-dev-x86-2004'') = ''deeproute-dev-x86-2004''"
  "config_get (cfg_predefinedCommands configDefault) [] = []"
  "config_get (cfg_predefinedCommands configLocal) [] = []"
  by (simp_all add: config_get_def configDefault_def configLocal_def trim_def isWhiteSpace_def)

lemma world0_simps [simp]:
  "answer world0 = Some ''Stop and Execute New Command''"
  "cwdExists world0"
  "fst (verifyContainer world0 n) = Normal"
  "\<exists>built. fst (buildDockerExec world0 root n c cwd d) = Inr built"
  by (simp_all add: world0_def exitedOk_def verifyContainer_def buildDockerExec_def Let_def
        trim_def isWhiteSpace_def nl_def)

lemma stateRunning_simps [simp]:
  "currentProcess stateRunning = Some 0"
  "workspaceRootValid stateRunning"
  "workspaceRoot stateRunning = ''/home/dev/codetree/repo''"
  "children stateRunning =
     [\<lparr>handle_open = True, killed = False, closed = False, resolved = False,
       capturedPath = ''/home/dev/codetree/repo/compile_commands.json'',
       capturedBeforeStats = \<lparr>exists = False, mtime = None\<rparr>\<rparr>]"
  "timers stateRunning = []"
  by (simp_all add: stateRunning_def run_def step_ExecuteEv execute_def shouldExecuteLocally_def
        executeLocally_def stopCurrentIfAny_def runLocally_def Let_def cwdGiven_def actualCwdOf_def
        spawn_def emit_def emits_def getFileStats_def getFileStats_try_def world0_def
        path_join_def path_normalize_def normalizeString_def)

section \<open>The artifact change detector\<close>

text \<open>
  Claim C3. \<open>getFileStats\<close> always yields a snapshot: whenever the body of its \<open>try\<close>
  block falls through or throws, and so whenever the file is missing or \<open>statSync\<close>
  fails, the snapshot is \<open>{exists: false}\<close>; a file that can be read gives its
  modification time. \<open>isCompileCommandsUpdated\<close> holds exactly when the file went from
  absent to present, or is present in both snapshots with a strictly later modification
  time in the second; equal times are no change.
\<close>

theorem artifact_change_detector:
  "(fst (getFileStats_try filePath fs) = Normal \<or> (\<exists>e. fst (getFileStats_try filePath fs) = Throw e)
      \<longrightarrow> fst (getFileStats filePath fs) = \<lparr>exists = False, mtime = None\<rparr>)
   \<and> ((\<not> existsSync fs \<or> isl (statSync fs)) \<longrightarrow>
        fst (getFileStats filePath fs) = \<lparr>exists = False, mtime = None\<rparr>)
   \<and> (existsSync fs \<and> statSync fs = Inr stats \<longrightarrow>
        fst (getFileStats filePath fs) = \<lparr>exists = True, mtime = Some (st_mtime stats)\<rparr>)
   \<and> (isCompileCommandsUpdated before after \<longleftrightarrow>
        (\<not> exists before \<and> exists after) \<or>
        (exists before \<and> exists after \<and>
           (\<exists>tb ta. mtime before = Some tb \<and> mtime after = Some ta \<and> tb < ta)))
   \<and> (exists before \<and> exists after \<and> mtime before = mtime after \<longrightarrow>
        \<not> isCompileCommandsUpdated before after)"
  by (auto simp: getFileStats_def getFileStats_try_def isCompileCommandsUpdated_def isl_def
           split: sum.splits)

theorem artifact_change_detector_witness:
  "fst (getFileStats ''/r/compile_commands.json''
          \<lparr>existsSync = True, statSync = Inl (Thrown ''EACCES'')\<rparr>) = \<lparr>exists = False, mtime = None\<rparr>
   \<and> \<not> isCompileCommandsUpdated \<lparr>exists = True, mtime = Some 5\<rparr> \<lparr>exists = True, mtime = Some 5\<rparr>"
  using artifact_change_detector [of "''/r/compile_commands.json''"
          "\<lparr>existsSync = True, statSync = Inl (Thrown ''EACCES'')\<rparr>"
          "\<lparr>st_mtime = 5, st_size = 0\<rparr>"
          "\<lparr>exists = True, mtime = Some 5\<rparr>" "\<lparr>exists = True, mtime = Some 5\<rparr>"]
  by simp

section \<open>Single flight\<close>

lemma executeLocally_prompt_first:
  "currentProcess s = Some p \<Longrightarrow> take 1 (added s (snd (executeLocally config w c cwd s))) = [stopPrompt]"
  by (simp add: executeLocally_added stopCurrentIfAny_added)

lemma executeInDocker_prompt_first:
  "currentProcess s = Some p \<Longrightarrow> take 1 (added s (snd (executeInDocker w n c cwd s))) = [stopPrompt]"
  by (simp add: executeInDocker_added stopCurrentIfAny_added)

text \<open>
  What holds of the single-flight rule while the field \<open>currentProcess\<close> is set. In
  every state reached by events after construction the field is empty or holds the
  process spawned last. When the field is set and the user does not choose ``Stop and
  Execute New Command'', \<open>executeLocally\<close> and \<open>executeInDocker\<close> return right after the
  prompt, so that \<open>execute\<close> leaves the field, the processes and the timers as they
  were, spawns nothing and sends no signal. When the field is set, the prompt is the
  first thing either function does.
\<close>

lemma declined_request:
  "handleInv (run evs (constructor homeDir root))
   \<and> (currentProcess s = Some p \<and> answer w \<noteq> Some ''Stop and Execute New Command'' \<longrightarrow>
        executeLocally config w command cwd s = (Return (), emit stopPrompt s)
      \<and> executeInDocker w containerName command cwd s = (Return (), emit stopPrompt s)
      \<and> currentProcess (snd (execute config w command cwd flag s)) = Some p
      \<and> children (snd (execute config w command cwd flag s)) = children s
      \<and> timers (snd (execute config w command cwd flag s)) = timers s
      \<and> filter isSpawn (added s (snd (execute config w command cwd flag s))) = []
      \<and> filter isKill (added s (snd (execute config w command cwd flag s))) = [])
   \<and> (currentProcess s = Some p \<longrightarrow>
        take 1 (added s (snd (executeLocally config w command cwd s))) = [stopPrompt]
      \<and> take 1 (added s (snd (executeInDocker w containerName command cwd s))) = [stopPrompt])"
  using run_handleInv [OF constructor_handleInv, of evs homeDir root]
        executeLocally_decline [of s p w config command cwd]
        executeInDocker_decline [of s p w containerName command cwd]
        execute_decline [of s p w config command cwd flag]
        executeLocally_prompt_first [of s p config w command cwd]
        executeInDocker_prompt_first [of s p w containerName command cwd]
  by blast

section \<open>The entry point\<close>

text \<open>
  Claim C10. The constructor sets \<open>workspaceRootValid\<close> to whether the workspace root is
  \<open>path.join(os.homedir(), 'codetree', 'repo')\<close>, and no event changes the flag
  afterwards. When the flag is off, \<open>execute\<close> only writes its two-line report: the
  result does not depend on the configuration, the override or the outside world, and
  the report holds no start of a process and no probe of the file system.
\<close>

theorem workspace_root_gate:
  "workspaceRootValid (constructor homeDir root) = (root = path_join [homeDir, ''codetree'', ''repo''])
   \<and> workspaceRootValid (run evs (constructor homeDir root)) = workspaceRootValid (constructor homeDir root)
   \<and> (root \<noteq> path_join [homeDir, ''codetree'', ''repo''] \<longrightarrow>
        execute config w command cwd flag (run evs (constructor homeDir root))
          = (None, emits workspaceRootRejected (run evs (constructor homeDir root))))
   \<and> (\<not> workspaceRootValid s \<longrightarrow>
        execute config w command cwd flag s = (None, emits workspaceRootRejected s))
   \<and> filter isProcessStart workspaceRootRejected = []
   \<and> filter isFsProbe workspaceRootRejected = []"
  by (simp add: constructor_valid execute_def workspaceRootRejected_def)

theorem workspace_root_gate_witness:
  "''/tmp/project'' \<noteq> path_join [''/home/dev'', ''codetree'', ''repo'']
   \<and> \<not> workspaceRootValid (constructor ''/home/dev'' ''/tmp/project'')
   \<and> execute configLocal world0 ''make'' None None
        (run [StopEv] (constructor ''/home/dev'' ''/tmp/project''))
      = (None, emits workspaceRootRejected (run [StopEv] (constructor ''/home/dev'' ''/tmp/project'')))"
proof -
  have a: "''/tmp/project'' \<noteq> path_join [''/home/dev'', ''codetree'', ''repo'']"
    by (simp add: path_join_def path_normalize_def normalizeString_def)
  show ?thesis
    using workspace_root_gate [of "''/home/dev''" "''/tmp/project''" "[StopEv]" configLocal world0
            "''make''" None None "constructor ''/home/dev'' ''/tmp/project''"] a
    by simp
qed

text \<open>
  Claim C4, as amended. The container name is the setting \<open>dockerContainerName\<close>, or
  \<open>deeproute-dev-x86-2004\<close> when the setting is not set. With a valid workspace root, a
  request that is not local and whose container name is empty after trimming is answered
  by the report ``Docker container is not configured'' alone: no process is started, no
  container call made, and the running process, if any, is not touched. A request whose
  setting is not set is not rejected: it runs \<open>executeInDocker\<close> on the default
  container.
\<close>

theorem container_not_configured:
  assumes "workspaceRootValid s"
      and "\<not> shouldExecuteLocally flag (config_get (cfg_executeLocally config) False)"
  shows "(trim (config_get (cfg_dockerContainerName config) ''deeproute-dev-x86-2004'') = [] \<longrightarrow>
           execute config w command cwd flag s = (None, emits containerNotConfigured s))
       \<and> filter isProcessStart containerNotConfigured = []
       \<and> last containerNotConfigured =
           ShowErrorPrompt ''Docker container is not configured. Please configure it in settings.''
             [''Configure Now'']
       \<and> currentProcess (emits containerNotConfigured s) = currentProcess s
       \<and> children (emits containerNotConfigured s) = children s
       \<and> (cfg_dockerContainerName config = None \<longrightarrow>
            snd (execute config w command cwd flag s)
              = snd (executeInDocker w ''deeproute-dev-x86-2004'' command cwd s))
       \<and> (trim (config_get (cfg_dockerContainerName config) ''deeproute-dev-x86-2004'') = [] \<longrightarrow>
            (\<exists>name. cfg_dockerContainerName config = Some name \<and> trim name = []))"
proof -
  have d: "trim ''deeproute-dev-x86-2004'' = ''deeproute-dev-x86-2004''"
    by (simp add: trim_def isWhiteSpace_def)
  have "trim (config_get (cfg_dockerContainerName config) ''deeproute-dev-x86-2004'') = [] \<longrightarrow>
          execute config w command cwd flag s = (None, emits containerNotConfigured s)"
    using assms by (auto simp add: execute_def Let_def trim_def)
  moreover have "cfg_dockerContainerName config = None \<longrightarrow>
          snd (execute config w command cwd flag s)
            = snd (executeInDocker w ''deeproute-dev-x86-2004'' command cwd s)"
    using assms by (simp add: execute_snd config_get_def d)
  moreover have "trim (config_get (cfg_dockerContainerName config) ''deeproute-dev-x86-2004'') = [] \<longrightarrow>
          (\<exists>name. cfg_dockerContainerName config = Some name \<and> trim name = [])"
    using d by (cases "cfg_dockerContainerName config") (simp_all add: config_get_def)
  ultimately show ?thesis
    by (simp add: containerNotConfigured_def)
qed

theorem container_not_configured_witness:
  "workspaceRootValid state0
   \<and> \<not> shouldExecuteLocally None (config_get (cfg_executeLocally (configDefault\<lparr>cfg_dockerContainerName := Some ''  ''\<rparr>)) False)
   \<and> trim (config_get (cfg_dockerContainerName (configDefault\<lparr>cfg_dockerContainerName := Some ''  ''\<rparr>)) ''deeproute-dev-x86-2004'') = []
   \<and> execute (configDefault\<lparr>cfg_dockerContainerName := Some ''  ''\<rparr>) world0 ''make'' None None state0
       = (None, emits containerNotConfigured state0)
   \<and> cfg_dockerContainerName configDefault = None
   \<and> snd (execute configDefault world0 ''make'' None None state0)
       = snd (executeInDocker world0 ''deeproute-dev-x86-2004'' ''make'' None state0)"
proof -
  have a: "workspaceRootValid state0"
    by simp
  have b: "\<not> shouldExecuteLocally None (config_get (cfg_executeLocally (configDefault\<lparr>cfg_dockerContainerName := Some ''  ''\<rparr>)) False)"
    by (simp add: shouldExecuteLocally_def config_get_def configDefault_def)
  have c: "trim (config_get (cfg_dockerContainerName (configDefault\<lparr>cfg_dockerContainerName := Some ''  ''\<rparr>)) ''deeproute-dev-x86-2004'') = []"
    by (simp add: config_get_def configDefault_def trim_def isWhiteSpace_def)
  have b': "\<not> shouldExecuteLocally None (config_get (cfg_executeLocally configDefault) False)"
    by (simp add: shouldExecuteLocally_def)
  have n: "cfg_dockerContainerName configDefault = None"
    by (simp add: configDefault_def)
  have "execute (configDefault\<lparr>cfg_dockerContainerName := Some ''  ''\<rparr>) world0 ''make'' None None state0
       = (None, emits containerNotConfigured state0)"
    by (rule container_not_configured [OF a b, THEN conjunct1, THEN mp, OF c])
  moreover have "snd (execute configDefault world0 ''make'' None None state0)
       = snd (executeInDocker world0 ''deeproute-dev-x86-2004'' ''make'' None state0)"
    by (rule container_not_configured [OF a b', THEN conjunct2, THEN conjunct2, THEN conjunct2,
              THEN conjunct2, THEN conjunct2, THEN conjunct1, THEN mp, OF n])
  ultimately show ?thesis using a b c n by (intro conjI)
qed

lemma findExecuteLocally_bare:
  "findExecuteLocally (filter (\<lambda>e. \<not> isBare e) cmds) command = findExecuteLocally cmds command"
  by (induction cmds command rule: findExecuteLocally.induct) simp_all

lemma findExecuteLocally_all_bare:
  "\<forall>e \<in> set cmds. isBare e \<Longrightarrow> findExecuteLocally cmds command = None"
  by (induction cmds command rule: findExecuteLocally.induct) simp_all

text \<open>
  Claim C7. A request is local exactly when its per-command switch is \<open>true\<close> or the
  global switch is on; \<open>execute\<close> then runs \<open>executeLocally\<close>, and otherwise the
  container path. Entries in bare-string form give no per-command switch: leaving them
  out does not change what \<open>executeCommandInternal\<close> finds, and a list of bare strings
  gives none.
\<close>

theorem mode_resolution:
  "(shouldExecuteLocally flag globalFlag \<longleftrightarrow> flag = Some True \<or> globalFlag)
   \<and> (workspaceRootValid s \<longrightarrow>
        snd (execute config w command cwd flag s) =
          (if flag = Some True \<or> config_get (cfg_executeLocally config) False
           then snd (executeLocally config w command cwd s)
           else if trim (config_get (cfg_dockerContainerName config) ''deeproute-dev-x86-2004'') = []
           then emits containerNotConfigured s
           else snd (executeInDocker w (trim (config_get (cfg_dockerContainerName config) ''deeproute-dev-x86-2004''))
                       command cwd s)))
   \<and> findExecuteLocally (filter (\<lambda>e. \<not> isBare e) cmds) command = findExecuteLocally cmds command
   \<and> ((\<forall>e \<in> set cmds. isBare e) \<longrightarrow> findExecuteLocally cmds command = None)
   \<and> findExecuteLocally (Bare command # cmds) command = findExecuteLocally cmds command"
  using findExecuteLocally_bare [of cmds command] findExecuteLocally_all_bare [of cmds command]
  by (auto simp add: execute_snd shouldExecuteLocally_def)

theorem mode_resolution_witness:
  "workspaceRootValid state0
   \<and> snd (execute configDefault world0 ''make'' None (Some True) state0)
       = snd (executeLocally configDefault world0 ''make'' None state0)
   \<and> snd (execute configDefault world0 ''make'' None (Some False) state0)
       = snd (executeInDocker world0 ''deeproute-dev-x86-2004'' ''make'' None state0)
   \<and> findExecuteLocally [Bare ''make'', Bare ''ninja''] ''make'' = None"
  using mode_resolution [of "Some True" False state0 configDefault world0 "''make''" None "[Bare ''make'', Bare ''ninja'']"]
        mode_resolution [of "Some False" False state0 configDefault world0 "''make''" None "[Bare ''make'', Bare ''ninja'']"]
  by simp

section \<open>The container is verified before the command is spawned\<close>

lemma spawnGuarded_no_spawn:
  "filter isSpawn xs = [] \<Longrightarrow> spawnGuarded fresh xs"
proof (induction xs arbitrary: fresh)
  case Nil
  then show ?case by simp
next
  case (Cons e xs)
  then show ?case by (cases e) (simp_all split: if_splits)
qed

lemma containerMissing_stops: "fst (containerMissing w n) \<noteq> Normal"
  by (simp add: containerMissing_def Let_def split: option.splits)

lemma containerMissing_no_spawn: "filter isSpawn (snd (containerMissing w n)) = []"
  by (simp add: containerMissing_def Let_def split: option.splits)

lemma startContainer_no_spawn: "filter isSpawn (snd (startContainer w n)) = []"
  by (simp add: startContainer_def Let_def split: option.splits)

lemma startContainer_Normal:
  "fst (startContainer w n) = Normal \<longleftrightarrow>
     error (startResult w) = None \<and> status (startResult w) = Some 0 \<and> reportsRunning (verifyResult w)"
  by (auto simp add: startContainer_def Let_def reportsRunning_def split: option.splits)

lemma startContainer_guarded:
  "fst (startContainer w n) = Normal \<Longrightarrow>
   spawnGuarded fresh (snd (startContainer w n) @ ys) = spawnGuarded True ys"
  by (auto simp add: startContainer_def Let_def inspectArgs_def reportsRunning_def
           split: option.splits if_splits)

lemma verifyContainer_no_spawn: "filter isSpawn (snd (verifyContainer w n)) = []"
  by (simp add: verifyContainer_def Let_def containerMissing_no_spawn startContainer_no_spawn
           split: option.splits)

lemma verifyContainer_Normal:
  "fst (verifyContainer w n) = Normal \<longleftrightarrow>
     error (inspectResult w) = None \<and> status (inspectResult w) = Some 0 \<and> stdout (inspectResult w) \<noteq> None \<and>
     (reportsRunning (inspectResult w) \<or>
      error (startResult w) = None \<and> status (startResult w) = Some 0 \<and> reportsRunning (verifyResult w))"
  by (auto simp add: verifyContainer_def Let_def reportsRunning_def containerMissing_stops
        startContainer_Normal split: option.splits)

lemma verifyContainer_guarded:
  "fst (verifyContainer w n) = Normal \<Longrightarrow>
   spawnGuarded fresh (snd (verifyContainer w n) @ ys) = spawnGuarded True ys"
  by (auto simp add: verifyContainer_def Let_def inspectArgs_def reportsRunning_def containerMissing_stops
        startContainer_guarded split: option.splits if_splits)

lemma getFileStats_effects:
  "snd (getFileStats path fs) =
     ExistsSync path (existsSync fs) # (if existsSync fs then [StatSync path (statSync fs)] else [])"
  by (simp add: getFileStats_def getFileStats_try_def split: sum.splits)

lemma buildDockerExec_guarded:
  "spawnGuarded fresh (snd (buildDockerExec w root n c cwd d) @ ys) = spawnGuarded fresh ys"
  by (simp add: buildDockerExec_def Let_def getFileStats_effects split: sum.splits)

lemma buildDockerExec_no_spawn:
  "filter isSpawn (snd (buildDockerExec w root n c cwd d)) = []"
  by (simp add: buildDockerExec_def Let_def getFileStats_effects split: sum.splits)

lemma dockerBanner_guarded:
  "spawnGuarded fresh (dockerBanner c n d t @ ys) = spawnGuarded fresh ys"
  by (simp add: dockerBanner_def)

lemma dockerBanner_no_spawn: "filter isSpawn (dockerBanner c n d t) = []"
  by (simp add: dockerBanner_def)

lemma localBanner_guarded:
  "spawnGuarded fresh (localBanner c d t @ ys) = spawnGuarded fresh ys"
  by (simp add: localBanner_def)

lemma runInDocker_added:
  "added s (snd (runInDocker w n c cwd s)) =
     dockerBanner c n (containerWorkDirOf cwd) (timeString w)
     @ snd (verifyContainer w n)
     @ (if fst (verifyContainer w n) = Normal then
          snd (buildDockerExec w (workspaceRoot s) n c cwd (containerWorkDirOf cwd))
          @ (case fst (buildDockerExec w (workspaceRoot s) n c cwd (containerWorkDirOf cwd)) of
               Inl e \<Rightarrow> []
             | Inr built \<Rightarrow>
                 [WithProgress (''Executing in container: '' @ c),
                  Spawn (length (children s)) ''docker'' (snd (snd built))
                    \<lparr>opt_cwd = workspaceRoot s, opt_env = processEnv w, opt_shell = None\<rparr>])
        else [])"
  by (simp add: added_def runInDocker_trace)

lemma runInDocker_guarded: "spawnGuarded fresh (added s (snd (runInDocker w n c cwd s)))"
  by (simp add: runInDocker_added dockerBanner_guarded verifyContainer_guarded buildDockerExec_guarded
        spawnGuarded_no_spawn verifyContainer_no_spawn split: sum.splits)

lemma runInDocker_spawns:
  "filter isSpawn (added s (snd (runInDocker w n c cwd s))) \<noteq> [] \<Longrightarrow> fst (verifyContainer w n) = Normal"
  by (simp add: runInDocker_added dockerBanner_no_spawn verifyContainer_no_spawn split: if_splits)

lemma stopCurrentIfAny_guarded:
  "spawnGuarded fresh (added s (snd (stopCurrentIfAny w s)) @ ys) = spawnGuarded fresh ys"
  by (simp add: stopCurrentIfAny_added stopPrompt_def split: option.splits)

lemma stopCurrentIfAny_no_spawn: "filter isSpawn (added s (snd (stopCurrentIfAny w s))) = []"
  by (simp add: stopCurrentIfAny_added stopPrompt_def split: option.splits)

lemma executeInDocker_guarded: "spawnGuarded fresh (added s (snd (executeInDocker w n c cwd s)))"
  using stopCurrentIfAny_guarded [of fresh s w "[]"]
  by (simp add: executeInDocker_added stopCurrentIfAny_guarded runInDocker_guarded)

lemma runLocally_added:
  "added s (snd (runLocally config w c cwd s)) =
     (if cwdGiven cwd then [ExistsSync (actualCwdOf (processCwd w) (workspaceRoot s) cwd) (cwdExists w)] else [])
     @ (if cwdGiven cwd \<and> \<not> cwdExists w
        then [ShowErrorMessage (''Specified directory does not exist: ''
                @ actualCwdOf (processCwd w) (workspaceRoot s) cwd)]
        else snd (getFileStats (path_join [actualCwdOf (processCwd w) (workspaceRoot s) cwd, ''compile_commands.json''])
                    (beforeFs w))
             @ localBanner c (actualCwdOf (processCwd w) (workspaceRoot s) cwd) (timeString w)
             @ [WithProgress (''Executing: '' @ c),
                Spawn (length (children s)) c []
                  \<lparr>opt_cwd = actualCwdOf (processCwd w) (workspaceRoot s) cwd,
                   opt_env = config_get (cfg_env config) [] @ processEnv w,
                   opt_shell = (if config_get (cfg_shell config) [] \<noteq> []
                                then Some (config_get (cfg_shell config) []) else None)\<rparr>])"
  by (simp add: added_def runLocally_trace)

lemma runLocally_guarded: "spawnGuarded fresh (added s (snd (runLocally config w c cwd s)))"
  by (simp add: runLocally_added getFileStats_effects localBanner_guarded)

lemma executeLocally_guarded: "spawnGuarded fresh (added s (snd (executeLocally config w c cwd s)))"
  using stopCurrentIfAny_guarded [of fresh s w "[]"]
  by (simp add: executeLocally_added stopCurrentIfAny_guarded runLocally_guarded)

lemma execute_guarded: "spawnGuarded fresh (added s (snd (execute config w c cwd flag s)))"
  by (simp add: execute_snd executeLocally_guarded executeInDocker_guarded
        workspaceRootRejected_def containerNotConfigured_def)

lemma executeInDocker_spawns:
  assumes "filter isSpawn (added s (snd (executeInDocker w n c cwd s))) \<noteq> []"
  shows "fst (verifyContainer w n) = Normal"
proof -
  from assms have "fst (stopCurrentIfAny w s) = Normal"
    and "filter isSpawn (added (snd (stopCurrentIfAny w s))
            (snd (runInDocker w n c cwd (snd (stopCurrentIfAny w s))))) \<noteq> []"
    by (simp_all add: executeInDocker_added stopCurrentIfAny_no_spawn split: if_splits)
  then show ?thesis by (simp add: runInDocker_spawns)
qed

text \<open>
  Claim C5. Reading the effects of one call of \<open>executeInDocker\<close> (or of \<open>execute\<close>)
  from its start, every spawn of \<open>docker exec\<close> comes when the most recent call to the
  container runtime was an \<open>inspect\<close> that reported the container as running. A spawn in
  \<open>executeInDocker\<close> therefore means that the first \<open>inspect\<close> ran without error and
  reported running, or that \<open>start\<close> succeeded and the second \<open>inspect\<close> reported
  running.
\<close>

theorem spawn_only_when_running:
  "spawnGuarded False (added s (snd (executeInDocker w containerName command cwd s)))
   \<and> spawnGuarded False (added s (snd (execute config w command cwd flag s)))
   \<and> (filter isSpawn (added s (snd (executeInDocker w containerName command cwd s))) \<noteq> [] \<longrightarrow>
        error (inspectResult w) = None \<and>
        (reportsRunning (inspectResult w) \<or>
         error (startResult w) = None \<and> status (startResult w) = Some 0 \<and> reportsRunning (verifyResult w)))"
  using executeInDocker_guarded [of False s w containerName command cwd]
        execute_guarded [of False s config w command cwd flag]
        executeInDocker_spawns [of s w containerName command cwd]
  by (auto simp add: verifyContainer_Normal)

theorem spawn_only_when_running_witness:
  "filter isSpawn (added state0 (snd (executeInDocker world0 ''deeproute-dev-x86-2004'' ''make'' None state0))) \<noteq> []
   \<and> error (inspectResult world0) = None
   \<and> reportsRunning (inspectResult world0)"
proof -
  obtain built where b: "fst (buildDockerExec world0 ''/home/dev/codetree/repo'' ''deeproute-dev-x86-2004''
                                ''make'' None (containerWorkDirOf None)) = Inr built"
    using world0_simps(4) by blast
  have h: "filter isSpawn (added state0 (snd (executeInDocker world0 ''deeproute-dev-x86-2004'' ''make'' None state0))) \<noteq> []"
    by (simp add: executeInDocker_added stopCurrentIfAny_added stopCurrentIfAny_fst runInDocker_added b)
  have r: "reportsRunning (inspectResult world0)"
    by (simp add: reportsRunning_def world0_def exitedOk_def trim_def isWhiteSpace_def nl_def)
  show ?thesis
    using spawn_only_when_running [of state0 world0 "''deeproute-dev-x86-2004''" "''make''" None
            configDefault None] h r
    by blast
qed

section \<open>After the process has closed\<close>

lemma substitute_plain:
  "filter isNotification (snd (substitute root filePath cw)) = []"
  "GetCommands \<notin> set (snd (substitute root filePath cw))"
  "ExecuteCommand x \<notin> set (snd (substitute root filePath cw))"
  by (simp_all add: substitute_def Let_def split: option.splits sum.splits)

lemma replaceCompileCommandsPath_try_plain:
  "filter isNotification (snd (replaceCompileCommandsPath_try root filePath cw)) = []"
  "GetCommands \<notin> set (snd (replaceCompileCommandsPath_try root filePath cw))"
  "ExecuteCommand x \<notin> set (snd (replaceCompileCommandsPath_try root filePath cw))"
  by (simp_all add: replaceCompileCommandsPath_try_def Let_def substitute_plain split: sum.splits)

lemma replaceCompileCommandsPath_snd:
  "snd (replaceCompileCommandsPath root filePath cw) =
     snd (replaceCompileCommandsPath_try root filePath cw)
     @ (case fst (replaceCompileCommandsPath_try root filePath cw) of
          Throw e \<Rightarrow> [OutAppendLine (''[Clangd] Path replacement failed: '' @ message e)]
        | Return b \<Rightarrow> []
        | Normal \<Rightarrow> [])"
  by (cases "replaceCompileCommandsPath_try root filePath cw")
     (simp add: replaceCompileCommandsPath_def split: completion.splits)

lemma replaceCompileCommandsPath_plain:
  "filter isNotification (snd (replaceCompileCommandsPath root filePath cw)) = []"
  "GetCommands \<notin> set (snd (replaceCompileCommandsPath root filePath cw))"
  "ExecuteCommand x \<notin> set (snd (replaceCompileCommandsPath root filePath cw))"
  by (simp_all add: replaceCompileCommandsPath_snd replaceCompileCommandsPath_try_plain
        split: completion.splits)

lemma replaceCompileCommandsPath_absent:
  "\<not> existsSync (rewriteFs cw) \<Longrightarrow>
   replaceCompileCommandsPath root filePath cw =
     (False, [OutAppendLine ''[Clangd] Updating real paths in compile_commands.json...'',
              ExistsSync filePath False,
              OutAppendLine (''[Clangd] File does not exist: '' @ filePath)])"
  by (simp add: replaceCompileCommandsPath_def replaceCompileCommandsPath_try_def Let_def)

lemma replaceCompileCommandsPath_no_marker:
  "status (grepQuiet cw) \<noteq> Some 0 \<Longrightarrow>
   filter isSubstitution (snd (replaceCompileCommandsPath root filePath cw)) = [] \<and>
   \<not> fst (replaceCompileCommandsPath root filePath cw)"
  by (simp add: replaceCompileCommandsPath_def replaceCompileCommandsPath_try_def Let_def
           split: sum.splits)

lemma restartClangd_unfold:
  "restartClangd root path cw =
     OutAppendLine ''[Clangd] Preparing to reload compile_commands.json and index C++ symbols...''
     # snd (replaceCompileCommandsPath root path cw)
     @ snd (restartCommand cw)
     @ (case fst (restartCommand cw) of Throw e \<Rightarrow> restartFailureReport e | Return u \<Rightarrow> [] | Normal \<Rightarrow> [])"
  by (simp add: restartClangd_def restartClangd_try_def Let_def split: completion.splits)

lemma restartCommand_refresh:
  "GetCommands \<in> set (snd (restartCommand cw))"
  "ExecuteCommand ''clangd.restart'' \<in> set (snd (restartCommand cw)) \<longleftrightarrow> refreshAvailable cw"
  by (auto simp add: restartCommand_def refreshAvailable_def Let_def split: sum.splits option.splits)

lemma restartCommand_independent:
  "restartCommand (cw\<lparr>rewriteFs := a, grepQuiet := b, grepCount := c, sedResult := d, durationText := t\<rparr>)
     = restartCommand cw"
  by (simp add: restartCommand_def Let_def split: sum.splits)

lemma restartFailureReport_plain:
  "GetCommands \<notin> set (restartFailureReport e)"
  "ExecuteCommand x \<notin> set (restartFailureReport e)"
  by (simp_all add: restartFailureReport_def)

lemma restartClangd_refresh:
  "refreshAttempted (restartClangd root path cw)"
  "refreshInvoked (restartClangd root path cw) \<longleftrightarrow> refreshAvailable cw"
  by (auto simp add: restartClangd_unfold refreshAttempted_def refreshInvoked_def restartCommand_refresh
        replaceCompileCommandsPath_plain restartFailureReport_plain split: completion.splits)

lemma onClose_added:
  "added s (onClose p code sig cw s) =
     OutAppendLine (nl @ dash40) #
     (if signalGiven sig then
        [OutAppendLine (''Command terminated by signal: '' @ the sig),
         ShowWarningMessage ''Command terminated'']
      else if code = Some 0 then
        OutAppendLine (''Command executed successfully (exit code: '' @ codeText code @ '')'')
        # snd (getFileStats (capturedPath (children s ! p)) (afterFs cw))
        @ (if isCompileCommandsUpdated (capturedBeforeStats (children s ! p))
                (fst (getFileStats (capturedPath (children s ! p)) (afterFs cw)))
           then OutAppendLine ''[Clangd] compile_commands.json has been updated''
                # restartClangd (workspaceRoot s) (capturedPath (children s ! p)) cw
           else [ShowInformationMessage ''Command executed successfully''])
      else
        [OutAppendLine (''Command execution failed (exit code: '' @ codeText code @ '')''),
         ShowErrorMessage (''Command failed with exit code: '' @ codeText code)])
     @ [OutAppendLine (dash40 @ nl), Resolve p]"
  by (simp add: onClose_def Let_def added_def)

lemma getFileStats_plain:
  "GetCommands \<notin> set (snd (getFileStats path fs))"
  "ExecuteCommand x \<notin> set (snd (getFileStats path fs))"
  by (simp_all add: getFileStats_effects)

lemma onClose_refresh:
  "refreshAttempted (added s (onClose p code sig cw s)) \<longleftrightarrow>
     \<not> signalGiven sig \<and> code = Some 0 \<and>
     isCompileCommandsUpdated (capturedBeforeStats (children s ! p))
       (fst (getFileStats (capturedPath (children s ! p)) (afterFs cw)))"
  "refreshInvoked (added s (onClose p code sig cw s)) \<longleftrightarrow>
     \<not> signalGiven sig \<and> code = Some 0 \<and>
     isCompileCommandsUpdated (capturedBeforeStats (children s ! p))
       (fst (getFileStats (capturedPath (children s ! p)) (afterFs cw))) \<and>
     refreshAvailable cw"
  using restartClangd_refresh [of "workspaceRoot s" "capturedPath (children s ! p)" cw]
  by (auto simp add: onClose_added refreshAttempted_def refreshInvoked_def getFileStats_plain)

lemma onClose_failed:
  "signalGiven sig \<or> code \<noteq> Some 0 \<Longrightarrow>
   filter isFsProbe (added s (onClose p code sig cw s)) = [] \<and>
   filter isProcessStart (added s (onClose p code sig cw s)) = []"
  by (auto simp add: onClose_added)

text \<open>
  Claim C6, as amended. When a process closes, \<open>restartClangd\<close> is entered, and asks for
  the registered commands, exactly when there was no signal, the exit code is 0 and the
  snapshots compare as changed; the command \<open>clangd.restart\<close> is executed exactly when,
  in addition, a registered command starts with \<open>clangd\<close>. Neither condition mentions
  any answer that the path rewriter gets. After a signal or an exit code other than 0
  the handler probes no file, starts no process and does not attempt the refresh.
\<close>

theorem refresh_after_clean_exit:
  "(refreshAttempted (added s (onClose p code sig cw s)) \<longleftrightarrow>
      \<not> signalGiven sig \<and> code = Some 0 \<and>
      isCompileCommandsUpdated (capturedBeforeStats (children s ! p))
        (fst (getFileStats (capturedPath (children s ! p)) (afterFs cw))))
   \<and> (refreshInvoked (added s (onClose p code sig cw s)) \<longleftrightarrow>
      \<not> signalGiven sig \<and> code = Some 0 \<and>
      isCompileCommandsUpdated (capturedBeforeStats (children s ! p))
        (fst (getFileStats (capturedPath (children s ! p)) (afterFs cw))) \<and>
      refreshAvailable cw)
   \<and> (signalGiven sig \<or> code \<noteq> Some 0 \<longrightarrow>
        filter isFsProbe (added s (onClose p code sig cw s)) = [] \<and>
        filter isProcessStart (added s (onClose p code sig cw s)) = [] \<and>
        \<not> refreshAttempted (added s (onClose p code sig cw s)) \<and>
        \<not> refreshInvoked (added s (onClose p code sig cw s)))"
  using onClose_refresh [of s p code sig cw] onClose_failed [of sig code s p cw]
  by blast

lemma stateRunning_closes:
  "isCompileCommandsUpdated (capturedBeforeStats (children stateRunning ! 0))
     (fst (getFileStats (capturedPath (children stateRunning ! 0)) (afterFs closeWorld0)))"
  "isCompileCommandsUpdated (capturedBeforeStats (children stateRunning ! 0))
     (fst (getFileStats (capturedPath (children stateRunning ! 0)) (afterFs closeWorldNoClangd)))"
  "refreshAvailable closeWorld0"
  "\<not> refreshAvailable closeWorldNoClangd"
  by (simp_all add: isCompileCommandsUpdated_def getFileStats_def getFileStats_try_def
        closeWorld0_def closeWorldNoClangd_def refreshAvailable_def startsWith_def)

theorem refresh_after_clean_exit_witness:
  "signalGiven (Some ''SIGTERM'')
   \<and> filter isFsProbe (added stateRunning (onClose 0 None (Some ''SIGTERM'') closeWorld0 stateRunning)) = []
   \<and> \<not> refreshAttempted (added stateRunning (onClose 0 None (Some ''SIGTERM'') closeWorld0 stateRunning))
   \<and> refreshInvoked (added stateRunning (onClose 0 (Some 0) None closeWorld0 stateRunning))"
proof -
  have a: "signalGiven (Some ''SIGTERM'')" "\<not> signalGiven None"
    by (simp_all add: signalGiven_def)
  show ?thesis
    using refresh_after_clean_exit [of stateRunning 0 None "Some ''SIGTERM''" closeWorld0]
          refresh_after_clean_exit [of stateRunning 0 "Some 0" None closeWorld0]
          a stateRunning_closes(1,3)
    by blast
qed

text \<open>
  Claim C6 as it is written fails where no command of \<open>clangd\<close> is registered: process
  0 closes with exit code 0 and no signal, the artifact has appeared, and
  \<open>clangd.restart\<close> is not executed.
\<close>

theorem refresh_iff_counterexample:
  "isCompileCommandsUpdated (capturedBeforeStats (children stateRunning ! 0))
     (fst (getFileStats (capturedPath (children stateRunning ! 0)) (afterFs closeWorldNoClangd)))
   \<and> \<not> refreshInvoked
         (added stateRunning (step (CloseEv 0 (Some 0) None closeWorldNoClangd) stateRunning))"
proof -
  have t: "added stateRunning x = added (closing 0 stateRunning) x" for x
    by (simp add: added_def)
  have c: "capturedBeforeStats (children (closing 0 stateRunning) ! 0)
             = capturedBeforeStats (children stateRunning ! 0)"
          "capturedPath (children (closing 0 stateRunning) ! 0)
             = capturedPath (children stateRunning ! 0)"
    by (simp_all add: closing_def)
  show ?thesis
    using onClose_refresh(2) [of "closing 0 stateRunning" 0 "Some 0" None closeWorldNoClangd]
          stateRunning_closes(2,4)
    by (simp add: t c)
qed

section \<open>The path rewriter is best effort\<close>

lemma replaceCompileCommandsPath_caught:
  "fst (replaceCompileCommandsPath_try root filePath cw) = Throw e \<Longrightarrow>
   \<not> fst (replaceCompileCommandsPath root filePath cw)"
  by (cases "replaceCompileCommandsPath_try root filePath cw") (simp add: replaceCompileCommandsPath_def)

lemma onClose_success_line:
  "\<not> signalGiven sig \<Longrightarrow> code = Some 0 \<Longrightarrow>
   OutAppendLine (''Command executed successfully (exit code: '' @ codeText (Some 0) @ '')'')
     \<in> set (added s (onClose p code sig cw s))"
  by (simp add: onClose_added)

text \<open>
  Claim C8. When the artifact is absent, \<open>replaceCompileCommandsPath\<close> returns \<open>false\<close>
  after two lines of log and the probe, without a notification. When \<open>grep -q\<close> does not
  exit with status 0, as it does not on a file in which \<open>/sandbox\<close> does not occur, the
  \<open>sed\<close> command is not run. Whatever the rewriter meets, it shows no notification, and an
  exception in it gives \<open>false\<close>; \<open>restartClangd\<close> goes on to ask for the registered
  commands, in a way that does not depend on any answer the rewriter got; and the
  \<open>close\<close> handler has written ``Command executed successfully'' and ends by clearing
  \<open>currentProcess\<close>.
\<close>

theorem rewrite_is_best_effort:
  "(\<not> existsSync (rewriteFs cw) \<longrightarrow>
      replaceCompileCommandsPath root filePath cw =
        (False, [OutAppendLine ''[Clangd] Updating real paths in compile_commands.json...'',
                 ExistsSync filePath False,
                 OutAppendLine (''[Clangd] File does not exist: '' @ filePath)]))
   \<and> (status (grepQuiet cw) \<noteq> Some 0 \<longrightarrow>
        filter isSubstitution (snd (replaceCompileCommandsPath root filePath cw)) = [])
   \<and> (\<not> includes_str content ''/sandbox'' \<and> status (grepQuiet cw) = Some (grepQuietStatus content) \<longrightarrow>
        filter isSubstitution (snd (replaceCompileCommandsPath root filePath cw)) = [])
   \<and> filter isNotification (snd (replaceCompileCommandsPath root filePath cw)) = []
   \<and> ((\<exists>e. fst (replaceCompileCommandsPath_try root filePath cw) = Throw e) \<longrightarrow>
        \<not> fst (replaceCompileCommandsPath root filePath cw))
   \<and> restartClangd root filePath cw =
        OutAppendLine ''[Clangd] Preparing to reload compile_commands.json and index C++ symbols...''
        # snd (replaceCompileCommandsPath root filePath cw)
        @ snd (restartCommand cw)
        @ (case fst (restartCommand cw) of Throw e \<Rightarrow> restartFailureReport e | Return u \<Rightarrow> [] | Normal \<Rightarrow> [])
   \<and> restartCommand (cw\<lparr>rewriteFs := a, grepQuiet := b, grepCount := c, sedResult := d, durationText := t\<rparr>)
        = restartCommand cw
   \<and> refreshAttempted (snd (restartCommand cw))
   \<and> (refreshInvoked (restartClangd root filePath cw) \<longleftrightarrow> refreshAvailable cw)
   \<and> (\<not> signalGiven sig \<and> code = Some 0 \<longrightarrow>
        OutAppendLine (''Command executed successfully (exit code: '' @ codeText (Some 0) @ '')'')
          \<in> set (added s (onClose p code sig cw s))
        \<and> currentProcess (onClose p code sig cw s) = None)"
proof -
  have "\<not> includes_str content ''/sandbox'' \<and> status (grepQuiet cw) = Some (grepQuietStatus content)
          \<longrightarrow> status (grepQuiet cw) \<noteq> Some 0"
    by (simp add: grepQuietStatus_def)
  moreover have "refreshAttempted (snd (restartCommand cw))"
    by (simp add: refreshAttempted_def restartCommand_refresh(1))
  ultimately show ?thesis
    using replaceCompileCommandsPath_absent [where cw = cw and root = root and filePath = filePath]
          replaceCompileCommandsPath_no_marker [where cw = cw and root = root and filePath = filePath]
          replaceCompileCommandsPath_plain(1) [where cw = cw and root = root and filePath = filePath]
          replaceCompileCommandsPath_caught [where cw = cw and root = root and filePath = filePath]
          restartClangd_unfold [where cw = cw and root = root and path = filePath]
          restartCommand_independent [where cw = cw and a = a and b = b and c = c and d = d and t = t]
          restartClangd_refresh(2) [where cw = cw and root = root and path = filePath]
          onClose_success_line [where sig = sig and code = code and s = s and p = p and cw = cw]
          onClose_simps(1) [where sig = sig and code = code and s = s and p = p and cw = cw]
    by blast
qed

theorem rewrite_is_best_effort_witness:
  "\<not> existsSync (rewriteFs (closeWorld0\<lparr>rewriteFs := \<lparr>existsSync = False, statSync = Inl (Thrown ''ENOENT'')\<rparr>\<rparr>))
   \<and> replaceCompileCommandsPath ''/home/dev/codetree/repo'' ''/home/dev/codetree/repo/compile_commands.json''
        (closeWorld0\<lparr>rewriteFs := \<lparr>existsSync = False, statSync = Inl (Thrown ''ENOENT'')\<rparr>\<rparr>)
      = (False, [OutAppendLine ''[Clangd] Updating real paths in compile_commands.json...'',
                 ExistsSync ''/home/dev/codetree/repo/compile_commands.json'' False,
                 OutAppendLine (''[Clangd] File does not exist: '' @ ''/home/dev/codetree/repo/compile_commands.json'')])
   \<and> \<not> includes_str ''[]'' ''/sandbox''
   \<and> filter isSubstitution (snd (replaceCompileCommandsPath ''/home/dev/codetree/repo''
        ''/home/dev/codetree/repo/compile_commands.json''
        (closeWorld0\<lparr>grepQuiet := exitedWith1 []\<rparr>))) = []
   \<and> OutAppendLine (''Command executed successfully (exit code: '' @ codeText (Some 0) @ '')'')
        \<in> set (added stateRunning (onClose 0 (Some 0) None
              (closeWorld0\<lparr>sedResult := Inl (Thrown ''Command failed: sed'')\<rparr>) stateRunning))"
proof -
  have a: "\<not> existsSync (rewriteFs (closeWorld0\<lparr>rewriteFs := \<lparr>existsSync = False, statSync = Inl (Thrown ''ENOENT'')\<rparr>\<rparr>))"
    by simp
  have b: "\<not> includes_str ''[]'' ''/sandbox''"
    by (simp add: startsWith_def)
  have c: "status (grepQuiet (closeWorld0\<lparr>grepQuiet := exitedWith1 []\<rparr>)) = Some (grepQuietStatus ''[]'')"
    by (simp add: exitedWith1_def grepQuietStatus_def startsWith_def)
  have d: "\<not> signalGiven None"
    by (simp add: signalGiven_def)
  note w1 = rewrite_is_best_effort [where cw = "closeWorld0\<lparr>rewriteFs := \<lparr>existsSync = False, statSync = Inl (Thrown ''ENOENT'')\<rparr>\<rparr>"
            and root = "''/home/dev/codetree/repo''" and filePath = "''/home/dev/codetree/repo/compile_commands.json''"]
  note w2 = rewrite_is_best_effort [where cw = "closeWorld0\<lparr>grepQuiet := exitedWith1 []\<rparr>"
            and root = "''/home/dev/codetree/repo''" and filePath = "''/home/dev/codetree/repo/compile_commands.json''"
            and content = "''[]''"]
  note w3 = rewrite_is_best_effort [where cw = "closeWorld0\<lparr>sedResult := Inl (Thrown ''Command failed: sed'')\<rparr>"
            and sig = None and code = "Some 0" and s = stateRunning and p = 0]
  have "replaceCompileCommandsPath ''/home/dev/codetree/repo'' ''/home/dev/codetree/repo/compile_commands.json''
        (closeWorld0\<lparr>rewriteFs := \<lparr>existsSync = False, statSync = Inl (Thrown ''ENOENT'')\<rparr>\<rparr>)
      = (False, [OutAppendLine ''[Clangd] Updating real paths in compile_commands.json...'',
                 ExistsSync ''/home/dev/codetree/repo/compile_commands.json'' False,
                 OutAppendLine (''[Clangd] File does not exist: '' @ ''/home/dev/codetree/repo/compile_commands.json'')])"
    by (rule w1 [THEN conjunct1, THEN mp, OF a])
  moreover have
    "filter isSubstitution (snd (replaceCompileCommandsPath ''/home/dev/codetree/repo''
        ''/home/dev/codetree/repo/compile_commands.json''
        (closeWorld0\<lparr>grepQuiet := exitedWith1 []\<rparr>))) = []"
    by (rule w2 [THEN conjunct2, THEN conjunct2, THEN conjunct1, THEN mp, OF conjI [OF b c]])
  moreover have
    "OutAppendLine (''Command executed successfully (exit code: '' @ codeText (Some 0) @ '')'')
        \<in> set (added stateRunning (onClose 0 (Some 0) None
              (closeWorld0\<lparr>sedResult := Inl (Thrown ''Command failed: sed'')\<rparr>) stateRunning))"
    by (rule w3 [THEN conjunct2, THEN conjunct2, THEN conjunct2, THEN conjunct2, THEN conjunct2,
                 THEN conjunct2, THEN conjunct2, THEN conjunct2, THEN conjunct2, THEN mp,
                 OF conjI [OF d refl], THEN conjunct1])
  ultimately show ?thesis using a b by (intro conjI)
qed

section \<open>Stopping a process\<close>

lemma stop_added:
  "currentProcess s = Some p \<Longrightarrow>
   added s (stop s) =
     [OutAppendLine (nl @ ''[Stop] Terminating command execution...''),
      Kill p SIGTERM (p < length (children s) \<and> handle_open (children s ! p)),
      SetTimeout 3000, ShowInformationMessage ''Command execution stopped'']"
  by (simp add: added_def stop_trace)

lemma stop_stateRunning:
  "trace (stop stateRunning) = trace stateRunning @
     [OutAppendLine (nl @ ''[Stop] Terminating command execution...''),
      Kill 0 SIGTERM True, SetTimeout 3000, ShowInformationMessage ''Command execution stopped'']"
  "currentProcess (stop stateRunning) = None"
  "timers (stop stateRunning) = [0]"
  "children (stop stateRunning) =
     [\<lparr>handle_open = True, killed = True, closed = False, resolved = False,
       capturedPath = ''/home/dev/codetree/repo/compile_commands.json'',
       capturedBeforeStats = \<lparr>exists = False, mtime = None\<rparr>\<rparr>]"
  by (simp_all add: stop_def kill_def Let_def emit_def)

text \<open>The state after the user has confirmed the replacement of \<open>make\<close> by \<open>ninja\<close>.\<close>

lemma replaced_stateRunning:
  "filter isKill (added stateRunning (step (ExecuteEv configLocal world0 ''ninja'' None) stateRunning))
     = [Kill 0 SIGTERM True]"
  "currentProcess (step (ExecuteEv configLocal world0 ''ninja'' None) stateRunning) = Some 1"
  "timers (step (ExecuteEv configLocal world0 ''ninja'' None) stateRunning) = [0]"
  "children (step (ExecuteEv configLocal world0 ''ninja'' None) stateRunning) =
     [\<lparr>handle_open = True, killed = True, closed = False, resolved = False,
       capturedPath = ''/home/dev/codetree/repo/compile_commands.json'',
       capturedBeforeStats = \<lparr>exists = False, mtime = None\<rparr>\<rparr>,
      \<lparr>handle_open = True, killed = False, closed = False, resolved = False,
       capturedPath = ''/home/dev/codetree/repo/compile_commands.json'',
       capturedBeforeStats = \<lparr>exists = False, mtime = None\<rparr>\<rparr>]"
  by (simp_all add: step_ExecuteEv execute_def shouldExecuteLocally_def
        executeLocally_def stopCurrentIfAny_def runLocally_def Let_def cwdGiven_def actualCwdOf_def
        spawn_def stop_def kill_def emit_def emits_def getFileStats_def getFileStats_try_def world0_def
        localBanner_def added_def path_join_def path_normalize_def normalizeString_def)

text \<open>The callback of the timer sends nothing to a process that is not the current one.\<close>

lemma stopTimeout_spares:
  "currentProcess s \<noteq> Some p \<Longrightarrow> Kill p sig delivered \<notin> set (added s (stopTimeout s))"
  by (auto simp add: stopTimeout_def added_def split: option.splits)

lemma stop_then_timeout:
  "currentProcess s = Some p \<Longrightarrow> stopTimeout (stop s) = stop s"
  by (simp add: stopTimeout_def)

lemma stopTimeout_kills:
  "currentProcess s = Some p \<Longrightarrow> p < length (children s) \<Longrightarrow> \<not> killed (children s ! p) \<Longrightarrow>
   handle_open (children s ! p) \<Longrightarrow> trace (stopTimeout s) = trace s @ [Kill p SIGKILL True]"
  by (simp add: stopTimeout_def)

text \<open>
  Claim C2 fails on the code. Process 0 is running; the stop verb is invoked; process 0
  does not exit; the timer of \<open>stop\<close> fires. The only signal sent is \<open>SIGTERM\<close>: the
  callback reads \<open>currentProcess\<close>, which \<open>stop\<close> has cleared, so process 0, still
  running, gets no \<open>SIGKILL\<close>. When instead the user replaces process 0 by a new command,
  the timer finds the new process 1 in the field and sends \<open>SIGKILL\<close> to it.
\<close>

theorem stopped_process_is_never_killed:
  "filter isKill (added stateRunning (run [StopEv, TimerEv] stateRunning)) = [Kill 0 SIGTERM True]
   \<and> handle_open (children (run [StopEv, TimerEv] stateRunning) ! 0)
   \<and> timers (run [StopEv, TimerEv] stateRunning) = []
   \<and> filter isKill (added stateRunning
        (run [ExecuteEv configLocal world0 ''ninja'' None, TimerEv] stateRunning))
      = [Kill 0 SIGTERM True, Kill 1 SIGKILL True]"
proof -
  let ?s = "step (ExecuteEv configLocal world0 ''ninja'' None) stateRunning"
  have len: "length (children ?s) = 2"
    by (simp add: replaced_stateRunning(4))
  have k: "\<not> killed (children ?s ! 1)" "handle_open (children ?s ! 1)"
    by (simp_all add: replaced_stateRunning(4))
  have fired: "trace (stopTimeout (?s\<lparr>timers := []\<rparr>)) = trace ?s @ [Kill 1 SIGKILL True]"
    using stopTimeout_kills [of "?s\<lparr>timers := []\<rparr>" 1] replaced_stateRunning(2) len k
    by simp
  have ext: "trace ?s = trace stateRunning @ added stateRunning ?s"
    by (simp add: step_ExecuteEv execute_snd shouldExecuteLocally_def executeLocally_unfold
          stopCurrentIfAny_fst stopCurrentIfAny_trace runLocally_trace added_def split: option.splits)
  have unfolded: "run [ExecuteEv configLocal world0 ''ninja'' None, TimerEv] stateRunning
                    = stopTimeout (?s\<lparr>timers := []\<rparr>)"
    by (simp add: run_def replaced_stateRunning(3))
  have "trace (stopTimeout (?s\<lparr>timers := []\<rparr>))
          = trace stateRunning @ (added stateRunning ?s @ [Kill 1 SIGKILL True])"
    by (subst fired, subst ext) simp
  then have "added stateRunning (stopTimeout (?s\<lparr>timers := []\<rparr>))
               = added stateRunning ?s @ [Kill 1 SIGKILL True]"
    by (rule added_extends)
  then have "filter isKill (added stateRunning
        (run [ExecuteEv configLocal world0 ''ninja'' None, TimerEv] stateRunning))
      = [Kill 0 SIGTERM True, Kill 1 SIGKILL True]"
    by (simp add: unfolded replaced_stateRunning(1))
  then show ?thesis
    by (simp add: run_def stop_stateRunning stopTimeout_def added_def)
qed

section \<open>The container does not exist\<close>

text \<open>When \<open>docker ps\<close> has run, whatever its exit status, the function returns.\<close>

lemma containerMissing_returns:
  "stdout (listResult w) = Some out \<Longrightarrow> fst (containerMissing w n) = Return ()"
  by (simp add: containerMissing_def Let_def)

lemma execute_fst:
  "fst (execute config w c cwd flag s) =
     (if \<not> workspaceRootValid s then None
      else if shouldExecuteLocally flag (config_get (cfg_executeLocally config) False)
           then (case fst (executeLocally config w c cwd s) of Throw e \<Rightarrow> Some e | Return u \<Rightarrow> None | Normal \<Rightarrow> None)
      else if trim (config_get (cfg_dockerContainerName config) ''deeproute-dev-x86-2004'') = []
           then None
      else (case fst (executeInDocker w (trim (config_get (cfg_dockerContainerName config) ''deeproute-dev-x86-2004'')) c cwd s) of
              Throw e \<Rightarrow> Some e | Return u \<Rightarrow> None | Normal \<Rightarrow> None))"
  by (auto simp add: execute_def Let_def trim_def split: prod.splits completion.splits)

lemma runInDocker_stops:
  "fst (verifyContainer w n) \<noteq> Normal \<Longrightarrow> fst (runInDocker w n c cwd s) = fst (verifyContainer w n)"
  by (simp add: runInDocker_def Let_def split: completion.splits)

lemma worldMissing_simps:
  "answer worldMissing = Some ''Stop and Execute New Command''"
  "timeString worldMissing = ''12:00:00''"
  "inspectResult worldMissing = exitedWith1 (''Error: No such object: deeproute-dev-x86-2004'' @ nl)"
  "listResult worldMissing = spawnFailed ''spawnSync docker EAGAIN''"
  by (simp_all add: worldMissing_def world0_def)

lemma no_such_object:
  "includes_str (trim (''Error: No such object: deeproute-dev-x86-2004'' @ nl)) ''No such object''"
  by (simp add: trim_def isWhiteSpace_def nl_def startsWith_def)

lemma containerMissing_worldMissing:
  "containerMissing worldMissing n =
     (Throw nullToString,
      [OutAppendLine (''Container '' @ sq @ n @ sq @ '' does not exist''),
       OutAppendLine (nl @ ''Available containers:''),
       SpawnSync ''docker'' [''ps'', ''-a'', ''--format'', ''{{.Names}}'']
         (spawnFailed ''spawnSync docker EAGAIN'')])"
  by (simp add: containerMissing_def Let_def worldMissing_simps spawnFailed_def)

lemma verifyContainer_worldMissing:
  "verifyContainer worldMissing n =
     (Throw nullToString,
      [SpawnSync ''docker'' (inspectArgs n) (exitedWith1 (''Error: No such object: deeproute-dev-x86-2004'' @ nl)),
       OutAppendLine (''Container '' @ sq @ n @ sq @ '' does not exist''),
       OutAppendLine (nl @ ''Available containers:''),
       SpawnSync ''docker'' [''ps'', ''-a'', ''--format'', ''{{.Names}}'']
         (spawnFailed ''spawnSync docker EAGAIN'')])"
proof -
  have "status (exitedWith1 x) = Some 1" "error (exitedWith1 x) = None" "stderr (exitedWith1 x) = Some x" for x
    by (simp_all add: exitedWith1_def)
  then show ?thesis
    using no_such_object
    by (simp add: verifyContainer_def Let_def worldMissing_simps containerMissing_worldMissing)
qed

text \<open>
  Claim C9 fails on the code. The container does not exist and \<open>docker ps\<close> cannot be
  spawned, so that \<open>listResult.stdout\<close> is \<open>null\<close>: \<open>execute\<close> is rejected with the
  \<open>TypeError\<close> of \<open>listResult.stdout.toString()\<close>, and the notification that the
  container does not exist is never shown.
\<close>

theorem enumeration_failure_escapes:
  "fst (execute configDefault worldMissing ''make'' None None state0) = Some nullToString
   \<and> filter isNotification (added state0 (snd (execute configDefault worldMissing ''make'' None None state0))) = []
   \<and> last (trace (run [ExecuteEv configDefault worldMissing ''make'' None] state0)) = Rejected nullToString"
proof -
  have f: "fst (executeInDocker worldMissing ''deeproute-dev-x86-2004'' ''make'' None state0) = Throw nullToString"
    by (simp add: executeInDocker_unfold stopCurrentIfAny_fst runInDocker_stops verifyContainer_worldMissing)
  have a: "fst (execute configDefault worldMissing ''make'' None None state0) = Some nullToString"
    by (simp add: execute_fst shouldExecuteLocally_def f)
  have b: "filter isNotification (added state0 (snd (execute configDefault worldMissing ''make'' None None state0))) = []"
    by (simp add: execute_snd shouldExecuteLocally_def executeInDocker_added stopCurrentIfAny_added
          stopCurrentIfAny_fst runInDocker_added verifyContainer_worldMissing dockerBanner_def)
  have c: "last (trace (run [ExecuteEv configDefault worldMissing ''make'' None] state0)) = Rejected nullToString"
    using a by (simp add: run_def step_ExecuteEv)
  from a b c show ?thesis by simp
qed

section \<open>An unset container name\<close>

text \<open>
  Claim C4 as it is written fails where the container name is not set at all: the
  workspace root is valid, the request is not local, no \<open>dockerContainerName\<close> is
  configured, and \<open>execute\<close> is not rejected but inspects the default container and
  spawns \<open>docker exec\<close>.
\<close>

theorem unset_container_counterexample:
  "cfg_dockerContainerName configDefault = None
   \<and> workspaceRootValid state0
   \<and> \<not> shouldExecuteLocally None (config_get (cfg_executeLocally configDefault) False)
   \<and> fst (execute configDefault world0 ''make'' None None state0) = None
   \<and> filter isSpawn (added state0 (snd (execute configDefault world0 ''make'' None None state0))) \<noteq> []
   \<and> filter isProcessStart (added state0 (snd (execute configDefault world0 ''make'' None None state0))) \<noteq> []
   \<and> filter isNotification (added state0 (snd (execute configDefault world0 ''make'' None None state0))) = []"
proof -
  obtain built where b: "fst (buildDockerExec world0 ''/home/dev/codetree/repo'' ''deeproute-dev-x86-2004''
                                ''make'' None (containerWorkDirOf None)) = Inr built"
    using world0_simps(4) by blast
  have e: "snd (execute configDefault world0 ''make'' None None state0)
             = snd (executeInDocker world0 ''deeproute-dev-x86-2004'' ''make'' None state0)"
    by (simp add: execute_snd shouldExecuteLocally_def)
  have v: "filter isNotification (snd (verifyContainer world0 ''deeproute-dev-x86-2004'')) = []"
    by (simp add: verifyContainer_def Let_def world0_def exitedOk_def trim_def isWhiteSpace_def nl_def)
  have u: "filter isNotification (snd (buildDockerExec world0 ''/home/dev/codetree/repo''
             ''deeproute-dev-x86-2004'' ''make'' None (containerWorkDirOf None))) = []"
    by (simp add: buildDockerExec_def Let_def getFileStats_effects world0_def)
  have f: "fst (executeInDocker world0 ''deeproute-dev-x86-2004'' ''make'' None state0) = Normal"
    using b by (cases built) (simp add: executeInDocker_unfold stopCurrentIfAny_fst runInDocker_fst)
  have "fst (execute configDefault world0 ''make'' None None state0) = None"
    by (simp add: execute_fst shouldExecuteLocally_def f)
  moreover have "filter isSpawn (added state0 (snd (execute configDefault world0 ''make'' None None state0))) \<noteq> []"
    by (simp add: e executeInDocker_added stopCurrentIfAny_added stopCurrentIfAny_fst runInDocker_added b)
  moreover have "filter isProcessStart (added state0 (snd (execute configDefault world0 ''make'' None None state0))) \<noteq> []"
    by (simp add: e executeInDocker_added stopCurrentIfAny_added stopCurrentIfAny_fst runInDocker_added b)
  moreover have "filter isNotification (added state0 (snd (execute configDefault world0 ''make'' None None state0))) = []"
    by (simp add: e executeInDocker_added stopCurrentIfAny_added stopCurrentIfAny_fst runInDocker_added b
          v u dockerBanner_def)
  moreover have "cfg_dockerContainerName configDefault = None"
    by (simp add: configDefault_def)
  moreover have "\<not> shouldExecuteLocally None (config_get (cfg_executeLocally configDefault) False)"
    by (simp add: shouldExecuteLocally_def)
  ultimately show ?thesis
    by simp
qed

section \<open>Single flight is lost after a replacement\<close>

lemma stateOrphaned_unfold:
  "stateOrphaned =
     onClose 0 None (Some ''SIGTERM'') closeWorld0
       (closing 0 (step (ExecuteEv configLocal world0 ''ninja'' None) stateRunning))"
  by (simp add: stateOrphaned_def run_def replaced_stateRunning(4))

lemma stateOrphaned_simps:
  "currentProcess stateOrphaned = None"
  "workspaceRootValid stateOrphaned"
  "workspaceRoot stateOrphaned = ''/home/dev/codetree/repo''"
  "children stateOrphaned =
     [\<lparr>handle_open = False, killed = True, closed = True, resolved = True,
       capturedPath = ''/home/dev/codetree/repo/compile_commands.json'',
       capturedBeforeStats = \<lparr>exists = False, mtime = None\<rparr>\<rparr>,
      \<lparr>handle_open = True, killed = False, closed = False, resolved = False,
       capturedPath = ''/home/dev/codetree/repo/compile_commands.json'',
       capturedBeforeStats = \<lparr>exists = False, mtime = None\<rparr>\<rparr>]"
  by (simp_all add: stateOrphaned_unfold onClose_def Let_def resolve_def closing_def
        replaced_stateRunning(4) emit_def emits_def)

lemma runLocally_children:
  "fst (runLocally config w c cwd s) = Normal \<Longrightarrow>
   children (snd (runLocally config w c cwd s)) =
     children s @
       [\<lparr>handle_open = True, killed = False, closed = False, resolved = False,
         capturedPath = path_join [actualCwdOf (processCwd w) (workspaceRoot s) cwd, ''compile_commands.json''],
         capturedBeforeStats =
           fst (getFileStats (path_join [actualCwdOf (processCwd w) (workspaceRoot s) cwd,
                                         ''compile_commands.json'']) (beforeFs w))\<rparr>]"
  by (simp add: runLocally_def Let_def spawn_def emit_def emits_def split: if_splits)

text \<open>
  Claim C1 fails on the code. \<open>make\<close> runs as process 0; the user starts \<open>ninja\<close> and
  confirms the prompt, so that \<open>stop\<close> signals process 0 and \<open>ninja\<close> is spawned as
  process 1; process 0 dies and its \<open>close\<close> handler sets \<open>currentProcess\<close> to
  \<open>undefined\<close>, although the field held process 1. Process 1 is still running, and a
  third command is now spawned as process 2 without any prompt: two processes run side by
  side, and only the later one is in the field.
\<close>

theorem second_spawn_without_prompt:
  "stateOrphaned =
     run [ExecuteEv configLocal world0 ''make'' None,
          ExecuteEv configLocal world0 ''ninja'' None,
          CloseEv 0 None (Some ''SIGTERM'') closeWorld0] state0
   \<and> currentProcess stateOrphaned = None
   \<and> handle_open (children stateOrphaned ! 1)
   \<and> \<not> closed (children stateOrphaned ! 1)
   \<and> filter isNotification (added stateOrphaned (step (ExecuteEv configLocal world0 ''cmake'' None) stateOrphaned)) = []
   \<and> map (\<lambda>e. case e of Spawn p file args options \<Rightarrow> (p, file) | _ \<Rightarrow> (0, []))
        (filter isSpawn (added stateOrphaned (step (ExecuteEv configLocal world0 ''cmake'' None) stateOrphaned)))
      = [(2, ''cmake'')]
   \<and> currentProcess (step (ExecuteEv configLocal world0 ''cmake'' None) stateOrphaned) = Some 2
   \<and> map handle_open (children (step (ExecuteEv configLocal world0 ''cmake'' None) stateOrphaned))
      = [False, True, True]"
proof -
  let ?s = "step (ExecuteEv configLocal world0 ''cmake'' None) stateOrphaned"
  have r: "stateOrphaned =
     run [ExecuteEv configLocal world0 ''make'' None,
          ExecuteEv configLocal world0 ''ninja'' None,
          CloseEv 0 None (Some ''SIGTERM'') closeWorld0] state0"
    by (simp add: stateOrphaned_def stateRunning_def run_def)
  have n: "fst (runLocally configLocal world0 ''cmake'' None stateOrphaned) = Normal"
    by (simp add: runLocally_fst cwdGiven_def)
  have x: "?s = snd (runLocally configLocal world0 ''cmake'' None stateOrphaned)"
          "fst (runLocally configLocal world0 ''cmake'' None stateOrphaned) = Normal"
    by (simp_all add: step_ExecuteEv execute_snd execute_fst shouldExecuteLocally_def executeLocally_unfold
          stopCurrentIfAny_def stateOrphaned_simps n)
  have ad: "added stateOrphaned ?s =
      snd (getFileStats (path_join [actualCwdOf (processCwd world0) (workspaceRoot stateOrphaned) None,
                                    ''compile_commands.json'']) (beforeFs world0))
      @ localBanner ''cmake'' (actualCwdOf (processCwd world0) (workspaceRoot stateOrphaned) None) (timeString world0)
      @ [WithProgress (''Executing: '' @ ''cmake''),
         Spawn 2 ''cmake'' []
           \<lparr>opt_cwd = actualCwdOf (processCwd world0) (workspaceRoot stateOrphaned) None,
            opt_env = config_get (cfg_env configLocal) [] @ processEnv world0,
            opt_shell = (if config_get (cfg_shell configLocal) [] \<noteq> []
                         then Some (config_get (cfg_shell configLocal) []) else None)\<rparr>]"
    by (simp add: x(1) runLocally_added cwdGiven_def stateOrphaned_simps(4))
  have c: "children ?s = children stateOrphaned @
       [\<lparr>handle_open = True, killed = False, closed = False, resolved = False,
         capturedPath = path_join [actualCwdOf (processCwd world0) (workspaceRoot stateOrphaned) None, ''compile_commands.json''],
         capturedBeforeStats =
           fst (getFileStats (path_join [actualCwdOf (processCwd world0) (workspaceRoot stateOrphaned) None,
                                         ''compile_commands.json'']) (beforeFs world0))\<rparr>]"
    by (simp add: x(1) runLocally_children [OF x(2)])
  have "filter isNotification (added stateOrphaned ?s) = []"
    by (simp add: ad getFileStats_effects localBanner_def)
  moreover have "map (\<lambda>e. case e of Spawn p file args options \<Rightarrow> (p, file) | _ \<Rightarrow> (0, []))
        (filter isSpawn (added stateOrphaned ?s)) = [(2, ''cmake'')]"
    by (simp add: ad getFileStats_effects localBanner_def)
  moreover have "currentProcess ?s = Some 2"
    by (simp add: x stateOrphaned_simps(4))
  moreover have "map handle_open (children ?s) = [False, True, True]"
    by (simp add: c stateOrphaned_simps(4))
  ultimately show ?thesis
    using r by (simp add: stateOrphaned_simps)
qed

end
